theory Spec2Isabelle
  imports Main "HOL-Library.Sublist" "HOL-Library.Word"
begin

text \<open>
  A shallow embedding of the revision subsystem of the decomposed file system
  (\<^verbatim>\<open>pkg/storage/utils/decomposedfs/revisions.go\<close>, \<^verbatim>\<open>node/revisions.go\<close>,
  \<^verbatim>\<open>upload/revision.go\<close>) and of the propagation walk of the ocis tree
  (\<^verbatim>\<open>Tree.Propagate\<close>, \<^verbatim>\<open>Tree.Move\<close>).

  Conventions. A Go function that returns \<^verbatim>\<open>(T, error)\<close> is a function into \<open>error + T\<close>
  (\<open>Inl\<close> the error); one that returns only \<^verbatim>\<open>error\<close> and changes the disk is a function
  into \<open>error option \<times> world\<close>. The disk is explicit state: files, the attributes the
  metadata backend keeps per path, and blobs. The model is sequential: lock files are not
  part of the state, and log statements are not modelled, so a branch of the code that
  only logs has no effect here. Collaborators of the repository that are not among the
  sources and that the spec says too little about are fields of the record \<open>env\<close>.
\<close>

section \<open>Go library functions used by the code\<close>

text \<open>
  \<^verbatim>\<open>strings.Index(s, sep)\<close>: the position of the first occurrence of \<open>sep\<close> in \<open>s\<close>,
  \<open>None\<close> where Go returns \<open>-1\<close>.
\<close>

fun strings_Index :: "string \<Rightarrow> string \<Rightarrow> nat option" where
  "strings_Index [] sep = (if sep = [] then Some 0 else None)"
| "strings_Index (c # cs) sep =
     (if prefix sep (c # cs) then Some 0 else map_option Suc (strings_Index cs sep))"

text \<open>
  The loop of \<^verbatim>\<open>strings.genSplit\<close> for a non-empty separator: at most \<open>k\<close> cuts, each at
  the first occurrence of \<open>sep\<close> in what is left; the rest is the last piece.
\<close>

fun genSplit :: "string \<Rightarrow> string \<Rightarrow> nat \<Rightarrow> string list" where
  "genSplit s sep 0 = [s]"
| "genSplit s sep (Suc k) =
     (case strings_Index s sep of
        None \<Rightarrow> [s]
      | Some m \<Rightarrow> take m s # genSplit (drop (m + length sep) s) sep k)"

text \<open>
  \<^verbatim>\<open>strings.SplitN(s, sep, n)\<close> for \<open>n \<ge> 0\<close> and a non-empty \<open>sep\<close> (every call of the
  revision code passes the constant delimiter and \<open>n = 2\<close>).
\<close>

definition strings_SplitN :: "string \<Rightarrow> string \<Rightarrow> nat \<Rightarrow> string list" where
  "strings_SplitN s sep n = (if n = 0 then [] else genSplit s sep (n - 1))"

definition strings_Contains :: "string \<Rightarrow> string \<Rightarrow> bool" where
  "strings_Contains s substr = (strings_Index s substr \<noteq> None)"

definition strings_HasPrefix :: "string \<Rightarrow> string \<Rightarrow> bool" where
  "strings_HasPrefix s pfx = prefix pfx s"

text \<open>Errors. \<open>Wrapped\<close> is \<^verbatim>\<open>errors.Wrap\<close>; \<open>NilPointerPanic\<close> is the panic of
  dereferencing a nil \<^verbatim>\<open>ResourceId\<close>; \<open>ErrNotExist\<close> is the not-exist condition of the file
  system and of the metadata backend; \<open>OtherError\<close> is any other error value.\<close>

datatype error =
    NotFound string
  | PermissionDenied string
  | InternalError string
  | ErrNotExist string
  | OtherError string
  | Wrapped string error
  | NilPointerPanic

type_synonym int64 = "64 word"

text \<open>\<^verbatim>\<open>strconv.ParseInt(s, 10, 64)\<close>: an optional sign, then decimal digits, within the
  range of \<^verbatim>\<open>int64\<close>.\<close>

definition digit_of :: "char \<Rightarrow> nat option" where
  "digit_of c = (let n = (of_char c :: nat) in if 48 \<le> n \<and> n \<le> 57 then Some (n - 48) else None)"

fun parse_digits :: "string \<Rightarrow> nat \<Rightarrow> nat option" where
  "parse_digits [] acc = Some acc"
| "parse_digits (c # cs) acc =
     (case digit_of c of None \<Rightarrow> None | Some d \<Rightarrow> parse_digits cs (10 * acc + d))"

definition strconv_ParseInt :: "string \<Rightarrow> error + int64" where
  "strconv_ParseInt s =
     (let neg = (s \<noteq> [] \<and> hd s = CHR ''-'');
          ds = (if s \<noteq> [] \<and> (hd s = CHR ''-'' \<or> hd s = CHR ''+'') then tl s else s)
      in if ds = [] then Inl (OtherError ''strconv.ParseInt: invalid syntax'')
         else (case parse_digits ds 0 of
                 None \<Rightarrow> Inl (OtherError ''strconv.ParseInt: invalid syntax'')
               | Some v \<Rightarrow>
                   if neg then (if v \<le> 2 ^ 63 then Inr (word_of_int (- int v))
                                else Inl (OtherError ''strconv.ParseInt: value out of range''))
                   else (if v < 2 ^ 63 then Inr (word_of_nat v)
                         else Inl (OtherError ''strconv.ParseInt: value out of range''))))"

text \<open>\<^verbatim>\<open>strconv.FormatInt(v, 10)\<close>.\<close>

function format_nat :: "nat \<Rightarrow> string" where
  "format_nat n =
     (if n < 10 then [''0123456789'' ! n]
      else format_nat (n div 10) @ [''0123456789'' ! (n mod 10)])"
  by pat_completeness auto
termination
  by (relation "measure id") auto

declare format_nat.simps [simp del]

definition strconv_FormatInt :: "int64 \<Rightarrow> string" where
  "strconv_FormatInt v =
     (if sint v < 0 then CHR ''-'' # format_nat (nat (- sint v)) else format_nat (nat (sint v)))"

text \<open>\<^verbatim>\<open>hex.EncodeToString\<close>: two lower-case hexadecimal digits per byte.\<close>

definition hex_EncodeToString :: "string \<Rightarrow> string" where
  "hex_EncodeToString bs =
     concat (map (\<lambda>c. [''0123456789abcdef'' ! ((of_char c :: nat) div 16),
                        ''0123456789abcdef'' ! ((of_char c :: nat) mod 16)]) bs)"

text \<open>A \<^verbatim>\<open>time.Time\<close> is the number of nanoseconds since the Unix epoch. \<^verbatim>\<open>Unix()\<close> is
  the number of seconds; the zero time of Go is January 1 of year 1.\<close>

type_synonym time = int

definition time_Unix :: "time \<Rightarrow> int64" where
  "time_Unix t = word_of_int (t div 1000000000)"



section \<open>Data model\<close>

text \<open>Revision keys (\<^verbatim>\<open>node/revisions.go\<close>).\<close>

definition RevisionIDDelimiter :: string where
  "RevisionIDDelimiter = ''.REV.''"

definition SplitRevisionKey :: "string \<Rightarrow> string \<times> string" where
  "SplitRevisionKey revisionKey =
     (let parts = strings_SplitN revisionKey RevisionIDDelimiter 2 in
      if length parts \<noteq> 2 then (revisionKey, '''')
      else (parts ! 0, parts ! 1))"

definition JoinRevisionKey :: "string \<Rightarrow> string \<Rightarrow> string" where
  "JoinRevisionKey nodeID revision = nodeID @ RevisionIDDelimiter @ revision"

text \<open>
  Modelled from the spec: \<^verbatim>\<open>metadata.IsNotExist\<close> is not under src/. It recognises the
  not-exist condition of the backend, which readers tolerate by treating the node as
  non-existent; wrapping an error does not hide the condition.
\<close>

fun IsNotExist :: "error \<Rightarrow> bool" where
  "IsNotExist (ErrNotExist p) = True"
| "IsNotExist (Wrapped msg e) = IsNotExist e"
| "IsNotExist e = False"

text \<open>
  Modelled from the spec: the attribute names of the package \<^verbatim>\<open>metadata/prefixes\<close> and
  the checksum names of the storage provider are not under src/. The spec lists blob id,
  blob size, checksums, mtime and type markers as attributes of a node; the strings
  below stand for their names. The proofs use only that the names are pairwise distinct
  and that, of them, only checksum names start with the checksum prefix.
\<close>

definition OcisPrefix :: string where "OcisPrefix = ''user.ocis.''"
definition TypeAttr :: string where "TypeAttr = OcisPrefix @ ''type''"
definition BlobIDAttr :: string where "BlobIDAttr = OcisPrefix @ ''blobid''"
definition BlobsizeAttr :: string where "BlobsizeAttr = OcisPrefix @ ''blobsize''"
definition MTimeAttr :: string where "MTimeAttr = OcisPrefix @ ''mtime''"
definition ChecksumPrefix :: string where "ChecksumPrefix = OcisPrefix @ ''cs.''"
definition ParentidAttr :: string where "ParentidAttr = OcisPrefix @ ''parentid''"
definition NameAttr :: string where "NameAttr = OcisPrefix @ ''name''"
definition XSSHA1 :: string where "XSSHA1 = ''sha1''"
definition XSMD5 :: string where "XSMD5 = ''md5''"
definition XSAdler32 :: string where "XSAdler32 = ''adler32''"

text \<open>
  Modelled from the spec: \<^verbatim>\<open>node.Attributes\<close> (not under src/) is the map of typed
  key/value pairs attached to a node, \<^verbatim>\<open>map[string][]byte\<close>: a string is stored as its
  bytes, an \<^verbatim>\<open>int64\<close> in decimal. Reading a missing key as a string gives the empty
  string, so reading it as an integer is a parse error.
\<close>

type_synonym attributes = "string \<rightharpoonup> string"

definition attrs_String :: "attributes \<Rightarrow> string \<Rightarrow> string" where
  "attrs_String md key = (case md key of None \<Rightarrow> [] | Some v \<Rightarrow> v)"

definition attrs_Int64 :: "attributes \<Rightarrow> string \<Rightarrow> error + int64" where
  "attrs_Int64 md key = strconv_ParseInt (attrs_String md key)"



text \<open>
  The fields of \<^verbatim>\<open>node.Node\<close> that the revision code reads and writes (the owner, the
  lookup and the node type are left out). The \<^verbatim>\<open>Node\<close> of the ocis tree has the fields
  \<open>ID\<close>, \<open>ParentID\<close>, \<open>Name\<close> and \<open>Exists\<close> of the same record.
\<close>

record node =
  SpaceID :: string
  ID :: string
  ParentID :: string
  Name :: string
  Exists :: bool
  BlobID :: string
  Blobsize :: int64

text \<open>The permissions of \<^verbatim>\<open>provider.ResourcePermissions\<close> that the revision code tests.\<close>

record resource_permissions =
  ListFileVersions :: bool
  InitiateFileDownload :: bool
  RestoreFileVersion :: bool
  Stat :: bool

record resource_id =
  StorageId :: string
  SpaceId :: string
  OpaqueId :: string

text \<open>\<^verbatim>\<open>provider.Reference\<close>; its \<^verbatim>\<open>ResourceId\<close> is a pointer and may be nil.\<close>

record reference =
  ResourceId :: "resource_id option"
  Path :: string

record file_version =
  Key :: string
  Mtime :: int64
  Size :: int64
  Etag :: string


text \<open>
  The disk. \<open>files\<close> maps the path of every file to its modification time; \<open>meta\<close> is what
  the metadata backend holds for a path: nothing, attributes, or an entry that cannot be
  read (with the error that reading it gives); \<open>blobs\<close> is the blobstore, which the spec
  keys by space, node id and blob id.
\<close>

datatype xattr_entry = Unreadable error | Attrs attributes

record world =
  files :: "string \<rightharpoonup> time"
  meta :: "string \<rightharpoonup> xattr_entry"
  blobs :: "(string \<times> string \<times> string) \<rightharpoonup> string"

text \<open>
  The collaborators the revision code calls and that are not among the sources:
  the lookup (\<open>InternalPath\<close>, \<open>NodeFromResource\<close>), the metadata backend's path functions
  (\<open>LockfilePath\<close>, \<open>MetadataPath\<close>, \<open>IsMetaFile\<close>), the permission engine
  (\<open>AssemblePermissions\<close>), \<^verbatim>\<open>storagespace.FormatReference\<close>, the node methods
  \<open>CheckLock\<close>, \<open>GetMTime\<close> and \<open>SetCurrentRevision\<close>, \<^verbatim>\<open>node.CalculateEtag\<close>, the
  propagation of the decomposed tree (\<open>tp_Propagate\<close>, which takes the size difference),
  and from Go's libraries \<^verbatim>\<open>lockedfile.OpenFile\<close>, \<^verbatim>\<open>filepath.Glob\<close>, \<^verbatim>\<open>filepath.Join\<close>,
  \<^verbatim>\<open>time.Now\<close>, the formatting \<^verbatim>\<open>t.UTC().Format(time.RFC3339Nano)\<close> and \<^verbatim>\<open>err.Error()\<close>.
  Each may fail wherever its Go signature allows; those that write return the new disk.
\<close>

record env =
  InternalPath :: "string \<Rightarrow> string \<Rightarrow> string"
  LockfilePath :: "string \<Rightarrow> string"
  MetadataPath :: "string \<Rightarrow> string"
  IsMetaFile :: "string \<Rightarrow> bool"
  NodeFromResource :: "world \<Rightarrow> reference \<Rightarrow> error + node"
  AssemblePermissions :: "world \<Rightarrow> node \<Rightarrow> error + resource_permissions"
  FormatReference :: "reference \<Rightarrow> string"
  CheckLock :: "world \<Rightarrow> node \<Rightarrow> error option"
  lockedfile_OpenFile :: "world \<Rightarrow> string \<Rightarrow> error option"
  GetMTime :: "world \<Rightarrow> node \<Rightarrow> error + time"
  CalculateEtag :: "node \<Rightarrow> time \<Rightarrow> error + string"
  SetCurrentRevision :: "world \<Rightarrow> node \<Rightarrow> string \<Rightarrow> error option \<times> world"
  tp_Propagate :: "world \<Rightarrow> node \<Rightarrow> int64 \<Rightarrow> error option \<times> world"
  filepath_Glob :: "world \<Rightarrow> string \<Rightarrow> error + string list"
  filepath_Join :: "string \<Rightarrow> string \<Rightarrow> string"
  time_Now :: time
  time_Format :: "time \<Rightarrow> string"
  err_Error :: "error \<Rightarrow> string"

section \<open>File system, metadata backend and blobstore\<close>

text \<open>\<^verbatim>\<open>os.Create\<close> creates the file or truncates it; the empty path does not exist.\<close>

definition os_Create :: "world \<Rightarrow> string \<Rightarrow> time \<Rightarrow> error + world" where
  "os_Create w name now =
     (if name = [] then Inl (ErrNotExist name)
      else Inr (w\<lparr>files := (files w)(name \<mapsto> now)\<rparr>))"

text \<open>\<^verbatim>\<open>os.Remove\<close> fails on a path that does not exist.\<close>

definition os_Remove :: "world \<Rightarrow> string \<Rightarrow> error option \<times> world" where
  "os_Remove w name =
     (case files w name of
        None \<Rightarrow> (Some (ErrNotExist name), w)
      | Some t \<Rightarrow> (None, w\<lparr>files := (files w)(name := None)\<rparr>))"

text \<open>\<^verbatim>\<open>os.RemoveAll\<close> removes the path and everything below it; a path that does not
  exist is no error, the empty path is ignored, and a path that ends in a dot element is
  refused.\<close>

definition endsWithDot :: "string \<Rightarrow> bool" where
  "endsWithDot path = (path = ''.'' \<or> suffix ''/.'' path)"

definition os_RemoveAll :: "world \<Rightarrow> string \<Rightarrow> error option \<times> world" where
  "os_RemoveAll w path =
     (if path = [] then (None, w)
      else if endsWithDot path then (Some (OtherError ''RemoveAll: invalid argument''), w)
      else (None, w\<lparr>files := (\<lambda>q. if q = path \<or> prefix (path @ ''/'') q then None
                                     else files w q)\<rparr>))"

definition os_Chtimes :: "world \<Rightarrow> string \<Rightarrow> time \<Rightarrow> error + world" where
  "os_Chtimes w name mtime =
     (case files w name of
        None \<Rightarrow> Inl (ErrNotExist name)
      | Some t \<Rightarrow> Inr (w\<lparr>files := (files w)(name \<mapsto> mtime)\<rparr>))"

definition os_Rename :: "world \<Rightarrow> string \<Rightarrow> string \<Rightarrow> error + world" where
  "os_Rename w oldpath newpath =
     (case files w oldpath of
        None \<Rightarrow> Inl (ErrNotExist oldpath)
      | Some t \<Rightarrow>
          if oldpath = newpath then Inr w
          else Inr (w\<lparr>files := (files w)(oldpath := None, newpath \<mapsto> t)\<rparr>))"

text \<open>
  Modelled from the spec: the metadata backend is not under src/. The spec gives it as
  a capability interface (get, set, unset, lock-file path, metadata path, is-meta-file,
  purge) over key/attribute storage per node. \<open>backend_All\<close> reads all attributes of a
  path, \<open>backend_SetMultiple\<close> sets the given attributes and keeps the others,
  \<open>backend_GetInt64\<close> reads one attribute as an integer, and \<open>backend_Purge\<close> drops
  whatever the backend holds for the path.
\<close>

definition backend_All :: "world \<Rightarrow> string \<Rightarrow> error + attributes" where
  "backend_All w path =
     (case meta w path of
        None \<Rightarrow> Inl (ErrNotExist path)
      | Some (Unreadable e) \<Rightarrow> Inl e
      | Some (Attrs a) \<Rightarrow> Inr a)"

definition backend_SetMultiple :: "world \<Rightarrow> string \<Rightarrow> attributes \<Rightarrow> error + world" where
  "backend_SetMultiple w path new =
     (case meta w path of
        None \<Rightarrow> Inr (w\<lparr>meta := (meta w)(path \<mapsto> Attrs new)\<rparr>)
      | Some (Unreadable e) \<Rightarrow> Inl e
      | Some (Attrs a) \<Rightarrow> Inr (w\<lparr>meta := (meta w)(path \<mapsto> Attrs (a ++ new))\<rparr>))"

definition backend_GetInt64 :: "world \<Rightarrow> string \<Rightarrow> string \<Rightarrow> error + int64" where
  "backend_GetInt64 w path key =
     (case backend_All w path of
        Inl e \<Rightarrow> Inl e
      | Inr a \<Rightarrow> (case a key of
                   None \<Rightarrow> Inl (OtherError ''attribute not set'')
                 | Some v \<Rightarrow> strconv_ParseInt v))"

definition backend_Purge :: "world \<Rightarrow> string \<Rightarrow> error option \<times> world" where
  "backend_Purge w path = (None, w\<lparr>meta := (meta w)(path := None)\<rparr>)"

text \<open>
  Modelled from the spec: \<^verbatim>\<open>Lookup.CopyMetadata\<close> and
  \<^verbatim>\<open>Lookup.CopyMetadataWithSourceLock\<close> are not under src/. The spec calls them a
  (lock-scoped) metadata copy; the callers under src/ pass a filter that, given an
  attribute's name and value, returns the value to write and whether to copy. The copy
  reads the attributes of the source, applies the filter to each, and sets what passes on
  the target. The lock handle has no counterpart in the sequential model.
\<close>

definition filter_attrs :: "(string \<Rightarrow> string \<Rightarrow> string \<times> bool) \<Rightarrow> attributes \<Rightarrow> attributes" where
  "filter_attrs f a =
     (\<lambda>k. case a k of
            None \<Rightarrow> None
          | Some v \<Rightarrow> (if snd (f k v) then Some (fst (f k v)) else None))"

definition CopyMetadata ::
  "world \<Rightarrow> string \<Rightarrow> string \<Rightarrow> (string \<Rightarrow> string \<Rightarrow> string \<times> bool) \<Rightarrow> error + world" where
  "CopyMetadata w sourcePath targetPath f =
     (case backend_All w sourcePath of
        Inl e \<Rightarrow> Inl e
      | Inr a \<Rightarrow> backend_SetMultiple w targetPath (filter_attrs f a))"

definition CopyMetadataWithSourceLock ::
  "world \<Rightarrow> string \<Rightarrow> string \<Rightarrow> (string \<Rightarrow> string \<Rightarrow> string \<times> bool) \<Rightarrow> error + world" where
  "CopyMetadataWithSourceLock w sourcePath targetPath f = CopyMetadata w sourcePath targetPath f"

text \<open>
  Modelled from the spec: the blobstore is not under src/. The spec gives
  \<^verbatim>\<open>Download(node)\<close> and \<^verbatim>\<open>Delete(node)\<close>, keyed by space, node id and blob id.
\<close>

definition blobstore_Download :: "world \<Rightarrow> node \<Rightarrow> error + string" where
  "blobstore_Download w n =
     (case blobs w (SpaceID n, ID n, BlobID n) of
        None \<Rightarrow> Inl (ErrNotExist (BlobID n))
      | Some content \<Rightarrow> Inr content)"

definition blobstore_Delete :: "world \<Rightarrow> node \<Rightarrow> error option \<times> world" where
  "blobstore_Delete w n =
     (case blobs w (SpaceID n, ID n, BlobID n) of
        None \<Rightarrow> (Some (ErrNotExist (BlobID n)), w)
      | Some content \<Rightarrow> (None, w\<lparr>blobs := (blobs w)((SpaceID n, ID n, BlobID n) := None)\<rparr>))"

text \<open>
  Modelled from the spec: \<^verbatim>\<open>Node.InternalPath\<close>, \<^verbatim>\<open>Node.Xattrs\<close>,
  \<^verbatim>\<open>Node.SetXattrsWithContext\<close> and \<^verbatim>\<open>node.ReadNode\<close> are not under src/. The
  physical location of a node is a function of its space and id alone; its attributes
  are what the backend holds at that location. \<open>ReadNode\<close> produces the node with
  \<open>Exists\<close> set and, if it exists, populated from the backend; a not-found condition of the
  backend is swallowed and surfaces as \<open>Exists = False\<close> (as \<open>ReadRevision\<close>, which is under
  src/, does for a revision).
\<close>

definition node_InternalPath :: "env \<Rightarrow> node \<Rightarrow> string" where
  "node_InternalPath e n = InternalPath e (SpaceID n) (ID n)"

definition node_Xattrs :: "env \<Rightarrow> world \<Rightarrow> node \<Rightarrow> error + attributes" where
  "node_Xattrs e w n = backend_All w (node_InternalPath e n)"


definition ReadNode :: "env \<Rightarrow> world \<Rightarrow> string \<Rightarrow> string \<Rightarrow> error + node" where
  "ReadNode e w spaceID nodeID =
     (let n = \<lparr>SpaceID = spaceID, ID = nodeID, ParentID = [], Name = [], Exists = False,
                BlobID = [], Blobsize = 0\<rparr>
      in case node_Xattrs e w n of
           Inl err \<Rightarrow> (if IsNotExist err then Inr n else Inl err)
         | Inr attrs \<Rightarrow>
             (case attrs_Int64 attrs BlobsizeAttr of
                Inl err \<Rightarrow> Inl err
              | Inr blobsize \<Rightarrow>
                  Inr (n\<lparr>ParentID := attrs_String attrs ParentidAttr,
                         Name := attrs_String attrs NameAttr,
                         Exists := True,
                         BlobID := attrs_String attrs BlobIDAttr,
                         Blobsize := blobsize\<rparr>)))"

section \<open>node/revisions.go: revision nodes\<close>

text \<open>\<^verbatim>\<open>Node.RevisionNode\<close>: the node of a revision, without reading metadata. The fields
  it does not set have Go's zero values.\<close>

definition RevisionNode :: "node \<Rightarrow> string \<Rightarrow> node" where
  "RevisionNode n revision =
     \<lparr>SpaceID = SpaceID n, ID = JoinRevisionKey (ID n) revision, ParentID = ParentID n,
      Name = Name n, Exists = False, BlobID = [], Blobsize = 0\<rparr>"

text \<open>\<^verbatim>\<open>Node.ReadRevision\<close>: the node of a revision with its metadata read. A not-exist
  condition is swallowed: the node is returned with \<open>Exists = False\<close> and no error.\<close>

definition ReadRevision :: "env \<Rightarrow> world \<Rightarrow> node \<Rightarrow> string \<Rightarrow> error + node" where
  "ReadRevision e w n revision =
     (let rn = RevisionNode n revision
      in case node_Xattrs e w rn of
           Inl err \<Rightarrow> (if IsNotExist err then Inr rn else Inl err)
         | Inr attrs \<Rightarrow>
             (let rn1 = rn\<lparr>Exists := True, BlobID := attrs_String attrs BlobIDAttr\<rparr>
              in case attrs_Int64 attrs BlobsizeAttr of
                   Inl err \<Rightarrow> Inl err
                 | Inr blobsize \<Rightarrow> Inr (rn1\<lparr>Blobsize := blobsize\<rparr>)))"

section \<open>revisions.go: list, download, restore and delete\<close>

text \<open>
  One pass of the loop of \<^verbatim>\<open>ListRevisions\<close> over a glob match: \<open>None\<close> where the code
  takes a \<^verbatim>\<open>continue\<close>, the file version it appends otherwise.
\<close>

definition revisionEntry :: "env \<Rightarrow> world \<Rightarrow> node \<Rightarrow> string \<Rightarrow> file_version option" where
  "revisionEntry e w n item =
     (if IsMetaFile e item then None
      else let rp = strings_SplitN item RevisionIDDelimiter 2
           in if length rp \<noteq> 2 then None
              else (case ReadRevision e w n (rp ! 1) of
                      Inl err \<Rightarrow> None
                    | Inr rn \<Rightarrow>
                        if \<not> Exists rn then None
                        else (case GetMTime e w rn of
                                Inl err \<Rightarrow> None
                              | Inr rmtime \<Rightarrow>
                                  (case CalculateEtag e rn rmtime of
                                     Inl err \<Rightarrow> None
                                   | Inr etag \<Rightarrow>
                                       Some \<lparr>Key = ID rn, Mtime = time_Unix rmtime,
                                             Size = Blobsize rn, Etag = etag\<rparr>))))"

fun listRevisionItems ::
  "env \<Rightarrow> world \<Rightarrow> node \<Rightarrow> file_version list \<Rightarrow> string list \<Rightarrow> file_version list" where
  "listRevisionItems e w n revisions [] = revisions"
| "listRevisionItems e w n revisions (item # items) =
     (case revisionEntry e w n item of
        None \<Rightarrow> listRevisionItems e w n revisions items
      | Some fv \<Rightarrow> listRevisionItems e w n (revisions @ [fv]) items)"

text \<open>\<^verbatim>\<open>ListRevisions\<close>. An error of \<^verbatim>\<open>filepath.Glob\<close> skips the loop and the empty
  list is returned.\<close>

definition ListRevisions :: "env \<Rightarrow> world \<Rightarrow> reference \<Rightarrow> error + file_version list" where
  "ListRevisions e w ref =
     (case NodeFromResource e w ref of
        Inl err \<Rightarrow> Inl err
      | Inr n \<Rightarrow>
          if \<not> Exists n then Inl (NotFound (filepath_Join e (ParentID n) (Name n)))
          else (case AssemblePermissions e w n of
                  Inl err \<Rightarrow> Inl err
                | Inr rp \<Rightarrow>
                    if \<not> ListFileVersions rp then
                      (if Stat rp then Inl (PermissionDenied (FormatReference e ref))
                       else Inl (NotFound (FormatReference e ref)))
                    else (let np = node_InternalPath e n
                          in case filepath_Glob e w (np @ RevisionIDDelimiter @ ''*'') of
                               Inl err \<Rightarrow> Inr []
                             | Inr items \<Rightarrow> Inr (listRevisionItems e w n [] items))))"

text \<open>
  \<^verbatim>\<open>DownloadRevision\<close>; the result is the content the blobstore's reader gives. The
  messages of the two wrapped errors are kept without their formatted arguments (the
  revision and the node id).
\<close>

definition DownloadRevision :: "env \<Rightarrow> world \<Rightarrow> reference \<Rightarrow> string \<Rightarrow> error + string" where
  "DownloadRevision e w ref revisionKey =
     (let kp = strings_SplitN revisionKey RevisionIDDelimiter 2
      in if length kp \<noteq> 2 then Inl (NotFound revisionKey)
         else (case ResourceId ref of
                 None \<Rightarrow> Inl NilPointerPanic
               | Some rid \<Rightarrow>
          (case ReadNode e w (SpaceId rid) (kp ! 0) of
             Inl err \<Rightarrow> Inl err
           | Inr n \<Rightarrow>
               if \<not> Exists n then Inl (NotFound (filepath_Join e (ParentID n) (Name n)))
               else (case AssemblePermissions e w n of
                       Inl err \<Rightarrow> Inl err
                     | Inr rp \<Rightarrow>
                         if \<not> ListFileVersions rp \<or> \<not> InitiateFileDownload rp then
                           (if Stat rp then Inl (PermissionDenied (FormatReference e ref))
                            else Inl (NotFound (FormatReference e ref)))
                         else (case ReadRevision e w n (kp ! 1) of
                                 Inl err \<Rightarrow>
                                   Inl (Wrapped ''Decomposedfs: could not read revision'' err)
                               | Inr revisionNode \<Rightarrow>
                                   (case blobstore_Download w revisionNode of
                                      Inl err \<Rightarrow>
                                        Inl (Wrapped
                                          ''Decomposedfs: could not download blob of revision'' err)
                                    | Inr reader \<Rightarrow> Inr reader))))))"

text \<open>
  The two filters \<^verbatim>\<open>RestoreRevision\<close> passes to the metadata copies: from the node to
  the new revision (checksums, type, blob id, blob size and mtime, unchanged), and from the
  restored revision to the node (the same without the mtime, which is replaced by the
  current time).
\<close>

definition copyToRevisionFilter :: "string \<Rightarrow> string \<Rightarrow> string \<times> bool" where
  "copyToRevisionFilter attributeName val =
     (val, strings_HasPrefix attributeName ChecksumPrefix \<or>
           attributeName = TypeAttr \<or>
           attributeName = BlobIDAttr \<or>
           attributeName = BlobsizeAttr \<or>
           attributeName = MTimeAttr)"

definition copyToNodeFilter :: "env \<Rightarrow> string \<Rightarrow> string \<Rightarrow> string \<times> bool" where
  "copyToNodeFilter e attributeName val =
     (if attributeName = MTimeAttr then (time_Format e (time_Now e), True)
      else (val, strings_HasPrefix attributeName ChecksumPrefix \<or>
                 attributeName = TypeAttr \<or>
                 attributeName = BlobIDAttr \<or>
                 attributeName = BlobsizeAttr))"

text \<open>The attributes both filters copy unchanged: checksums, type, blob id and blob
  size.\<close>

definition blobAttr :: "string \<Rightarrow> bool" where
  "blobAttr attributeName =
     (strings_HasPrefix attributeName ChecksumPrefix \<or> attributeName = TypeAttr \<or>
      attributeName = BlobIDAttr \<or> attributeName = BlobsizeAttr)"

text \<open>
  \<^verbatim>\<open>RestoreRevision\<close> is given in the order of its source. \<open>RestoreRevision_prepare\<close>
  is the function up to and including the creation of the new revision file: key
  format, node, permission, lock, the node's mtime and \<^verbatim>\<open>os.Create\<close>; it returns the
  node, the space id, the node id, the mtime and the disk after the creation.
  \<open>RestoreRevision_promote\<close> is what follows up to the reading of the restored size: the
  copy of the node's blob attributes to the new revision, \<^verbatim>\<open>os.Chtimes\<close>,
  \<^verbatim>\<open>SetCurrentRevision\<close>, the copy of the restored revision's blob attributes to the
  node, and the reading of the revision's blob size. \<open>dropOldRevision\<close> is the removal of
  the restored revision, whose errors are only logged. \<open>RestoreRevision_locked\<close> is
  everything after the registration of the deferred cleanup, up to the return of
  \<^verbatim>\<open>fs.tp.Propagate\<close>. \<open>RestoreRevision_deferred\<close> is the deferred function: when the
  named result \<^verbatim>\<open>returnErr\<close> is not nil it removes the new revision file and purges its
  metadata, logging the errors of both.
\<close>

definition newRevisionPathOf :: "env \<Rightarrow> string \<Rightarrow> string \<Rightarrow> time \<Rightarrow> string" where
  "newRevisionPathOf e spaceID nodeID mtime =
     InternalPath e spaceID (nodeID @ RevisionIDDelimiter @ time_Format e mtime)"

definition RestoreRevision_prepare ::
  "env \<Rightarrow> world \<Rightarrow> reference \<Rightarrow> string \<Rightarrow> error + (node \<times> string \<times> string \<times> time \<times> world)" where
  "RestoreRevision_prepare e w ref revisionKey =
     (let kp = strings_SplitN revisionKey RevisionIDDelimiter 2
      in if length kp \<noteq> 2 then Inl (NotFound revisionKey)
         else (case ResourceId ref of
                 None \<Rightarrow> Inl NilPointerPanic
               | Some rid \<Rightarrow>
          (case ReadNode e w (SpaceId rid) (kp ! 0) of
             Inl err \<Rightarrow> Inl err
           | Inr n \<Rightarrow>
               if \<not> Exists n then Inl (NotFound (filepath_Join e (ParentID n) (Name n)))
               else (case AssemblePermissions e w n of
                       Inl err \<Rightarrow> Inl err
                     | Inr rp \<Rightarrow>
                         if \<not> RestoreFileVersion rp then
                           (if Stat rp then Inl (PermissionDenied (FormatReference e ref))
                            else Inl (NotFound (FormatReference e ref)))
                         else (case CheckLock e w n of
                                 Some err \<Rightarrow> Inl err
                               | None \<Rightarrow>
          (case lockedfile_OpenFile e w (LockfilePath e (node_InternalPath e n)) of
             Some err \<Rightarrow> Inl err
           | None \<Rightarrow>
               (case GetMTime e w n of
                  Inl err \<Rightarrow> Inl err
                | Inr mtime \<Rightarrow>
                    (case os_Create w (newRevisionPathOf e (SpaceId rid) (kp ! 0) mtime)
                            (time_Now e) of
                       Inl err \<Rightarrow> Inl err
                     | Inr w1 \<Rightarrow> Inr (n, SpaceId rid, kp ! 0, mtime, w1)))))))))"

definition dropOldRevision :: "env \<Rightarrow> world \<Rightarrow> string \<Rightarrow> world" where
  "dropOldRevision e w restoredRevisionPath =
     (let w1 = snd (os_Remove w restoredRevisionPath);
          w2 = snd (os_Remove w1 (MetadataPath e restoredRevisionPath));
          w3 = snd (os_Remove w2 (LockfilePath e restoredRevisionPath));
          w4 = snd (backend_Purge w3 restoredRevisionPath)
      in w4)"

definition RestoreRevision_promote ::
  "env \<Rightarrow> world \<Rightarrow> string \<Rightarrow> node \<Rightarrow> string \<Rightarrow> string \<Rightarrow> time
     \<Rightarrow> (error \<times> world) + (int64 \<times> world)" where
  "RestoreRevision_promote e w1 revisionKey n spaceID nodeID mtime =
     (let nodePath = InternalPath e spaceID nodeID;
          newRevisionPath = newRevisionPathOf e spaceID nodeID mtime
      in case CopyMetadataWithSourceLock w1 nodePath newRevisionPath copyToRevisionFilter of
           Inl err \<Rightarrow>
             Inl (InternalError (''failed to copy blob xattrs to version node: '' @ err_Error e err),
                  w1)
         | Inr w2 \<Rightarrow>
          (case os_Chtimes w2 newRevisionPath mtime of
             Inl err \<Rightarrow> Inl (InternalError ''failed to change mtime of version node'', w2)
           | Inr w3 \<Rightarrow>
              (case SetCurrentRevision e w3 n revisionKey of
                 (Some err, w4) \<Rightarrow> Inl (InternalError ''failed to update revision for node'', w4)
               | (None, w4) \<Rightarrow>
                  (let restoredRevisionPath = InternalPath e spaceID revisionKey
                   in case CopyMetadata w4 restoredRevisionPath nodePath (copyToNodeFilter e) of
                        Inl err \<Rightarrow>
                          Inl (InternalError
                                (''failed to copy blob xattrs to old revision to node: ''
                                   @ err_Error e err), w4)
                      | Inr w5 \<Rightarrow>
                         (case backend_GetInt64 w5 restoredRevisionPath BlobsizeAttr of
                            Inl err \<Rightarrow>
                              Inl (InternalError
                                    ''failed to read blob size xattr from old revision'', w5)
                          | Inr revisionSize \<Rightarrow> Inr (revisionSize, w5))))))"

definition RestoreRevision_locked ::
  "env \<Rightarrow> world \<Rightarrow> string \<Rightarrow> node \<Rightarrow> string \<Rightarrow> string \<Rightarrow> time \<Rightarrow> error option \<times> world" where
  "RestoreRevision_locked e w1 revisionKey n spaceID nodeID mtime =
     (case RestoreRevision_promote e w1 revisionKey n spaceID nodeID mtime of
        Inl (err, w') \<Rightarrow> (Some err, w')
      | Inr (revisionSize, w5) \<Rightarrow>
          (let w6 = dropOldRevision e w5 (InternalPath e spaceID revisionKey);
               sizeDiff = revisionSize - Blobsize n
           in tp_Propagate e w6 n sizeDiff))"

definition RestoreRevision_deferred :: "env \<Rightarrow> string \<Rightarrow> error option \<times> world \<Rightarrow> error option \<times> world" where
  "RestoreRevision_deferred e newRevisionPath r =
     (case r of
        (None, w) \<Rightarrow> (None, w)
      | (Some returnErr, w) \<Rightarrow>
          (let w1 = snd (os_Remove w newRevisionPath);
               w2 = snd (backend_Purge w1 newRevisionPath)
           in (Some returnErr, w2)))"

definition RestoreRevision :: "env \<Rightarrow> world \<Rightarrow> reference \<Rightarrow> string \<Rightarrow> error option \<times> world" where
  "RestoreRevision e w ref revisionKey =
     (case RestoreRevision_prepare e w ref revisionKey of
        Inl err \<Rightarrow> (Some err, w)
      | Inr (n, spaceID, nodeID, mtime, w1) \<Rightarrow>
          RestoreRevision_deferred e (newRevisionPathOf e spaceID nodeID mtime)
            (RestoreRevision_locked e w1 revisionKey n spaceID nodeID mtime))"

definition getRevisionNode ::
  "env \<Rightarrow> world \<Rightarrow> reference \<Rightarrow> string \<Rightarrow> (resource_permissions \<Rightarrow> bool) \<Rightarrow> error + node" where
  "getRevisionNode e w ref revisionKey hasPermission =
     (let kp = strings_SplitN revisionKey RevisionIDDelimiter 2
      in if length kp \<noteq> 2 then Inl (NotFound revisionKey)
         else (case ResourceId ref of
                 None \<Rightarrow> Inl NilPointerPanic
               | Some rid \<Rightarrow>
          (case ReadNode e w (SpaceId rid) (kp ! 0) of
             Inl err \<Rightarrow> Inl err
           | Inr n \<Rightarrow>
               if \<not> Exists n then Inl (NotFound (filepath_Join e (ParentID n) (Name n)))
               else (case AssemblePermissions e w n of
                       Inl err \<Rightarrow> Inl err
                     | Inr p \<Rightarrow>
                         if \<not> hasPermission p then
                           Inl (PermissionDenied (filepath_Join e (ParentID n) (Name n)))
                         else Inr n))))"

definition DeleteRevision :: "env \<Rightarrow> world \<Rightarrow> reference \<Rightarrow> string \<Rightarrow> error option \<times> world" where
  "DeleteRevision e w ref revisionKey =
     (case getRevisionNode e w ref revisionKey RestoreFileVersion of
        Inl err \<Rightarrow> (Some err, w)
      | Inr n \<Rightarrow>
          (case os_RemoveAll w (InternalPath e (SpaceID n) revisionKey) of
             (Some err, w1) \<Rightarrow> (Some err, w1)
           | (None, w1) \<Rightarrow> blobstore_Delete w1 n))"

section \<open>upload/revision.go\<close>



section \<open>The ocis tree: Propagate and Move\<close>

text \<open>
  What \<^verbatim>\<open>Tree\<close> reads of its \<^verbatim>\<open>Path\<close> wrapper: the root directory, whether homes are
  enabled, the results of \<^verbatim>\<open>HomeNode\<close> and \<^verbatim>\<open>RootNode\<close>, and the sixteen bytes (or the
  error) that \<^verbatim>\<open>rand.Read\<close> gives.
\<close>

record tree =
  pw_Root :: string
  pw_EnableHome :: bool
  pw_HomeNode :: "error + node"
  pw_RootNode :: "error + node"
  rand_Read :: "error + string"

text \<open>
  The directory of a node, \<^verbatim>\<open>filepath.Join(t.pw.Root, "nodes", node.ID)\<close>, for a clean
  root and an id that is a single path element (then \<^verbatim>\<open>Join\<close> only concatenates).
\<close>

definition tree_nodePath :: "tree \<Rightarrow> string \<Rightarrow> string" where
  "tree_nodePath t nodeID = pw_Root t @ ''/nodes/'' @ nodeID"

text \<open>\<^verbatim>\<open>xattr.Get\<close> and \<^verbatim>\<open>xattr.Set\<close> of the xattr library, on the attributes kept for
  a path; both fail on a path that has none.\<close>

definition xattr_Get :: "world \<Rightarrow> string \<Rightarrow> string \<Rightarrow> error + string" where
  "xattr_Get w path name =
     (case meta w path of
        None \<Rightarrow> Inl (ErrNotExist path)
      | Some (Unreadable e) \<Rightarrow> Inl e
      | Some (Attrs a) \<Rightarrow>
          (case a name of
             None \<Rightarrow> Inl (OtherError ''xattr: attribute not found'')
           | Some v \<Rightarrow> Inr v))"

definition xattr_Set :: "world \<Rightarrow> string \<Rightarrow> string \<Rightarrow> string \<Rightarrow> error + world" where
  "xattr_Set w path name val =
     (case meta w path of
        None \<Rightarrow> Inl (ErrNotExist path)
      | Some (Unreadable e) \<Rightarrow> Inl e
      | Some (Attrs a) \<Rightarrow> Inr (w\<lparr>meta := (meta w)(path \<mapsto> Attrs (a(name \<mapsto> val)))\<rparr>))"

text \<open>
  Modelled from the spec: \<^verbatim>\<open>Node.Parent\<close> of the ocis driver is not under src/. A node
  wraps an id, a parent id and a name, computed from the backend: the parent of \<open>n\<close> is
  the node whose id is \<open>n\<close>'s parent id, with its own parent id and name read from the
  extended attributes of its directory; an attribute that cannot be read is the error.
\<close>

definition node_Parent :: "tree \<Rightarrow> world \<Rightarrow> node \<Rightarrow> error + node" where
  "node_Parent t w n =
     (let parentPath = tree_nodePath t (ParentID n)
      in case xattr_Get w parentPath ''user.ocis.parentid'' of
           Inl err \<Rightarrow> Inl err
         | Inr parentid \<Rightarrow>
             (case xattr_Get w parentPath ''user.ocis.name'' of
                Inl err \<Rightarrow> Inl err
              | Inr name \<Rightarrow>
                  Inr \<lparr>SpaceID = SpaceID n, ID = ParentID n, ParentID = parentid, Name = name,
                       Exists = True, BlobID = [], Blobsize = 0\<rparr>))"

text \<open>
  The loop of \<^verbatim>\<open>Tree.Propagate\<close>. It runs while the error is nil and the node's id is
  not the root's: it sets the etag attribute of the node (an error of \<^verbatim>\<open>xattr.Set\<close> is
  only logged) and moves to the parent, whose error ends the loop and is returned. The
  test of \<^verbatim>\<open>err\<close> after the \<^verbatim>\<open>xattr.Set\<close> reads the outer variable, which is nil inside
  the loop, so it has no branch here. Nothing bounds the walk: the function is partial,
  and \<open>None\<close> is a walk that does not end. \<open>written\<close> records the ids of the nodes the loop
  has processed, in order; the code has no such list.
\<close>

partial_function (option) Propagate_loop ::
  "tree \<Rightarrow> string \<Rightarrow> node \<Rightarrow> world \<Rightarrow> node \<Rightarrow> string list
     \<Rightarrow> (error option \<times> world \<times> string list) option" where
  "Propagate_loop t etag root w n written =
     (if ID n \<noteq> ID root then
        (let w1 = (case xattr_Set w (tree_nodePath t (ID n)) ''user.ocis.etag'' etag of
                     Inl err \<Rightarrow> w
                   | Inr w' \<Rightarrow> w')
         in case node_Parent t w1 n of
              Inl err \<Rightarrow> Some (Some err, w1, written @ [ID n])
            | Inr p \<Rightarrow> Propagate_loop t etag root w1 p (written @ [ID n]))
      else Some (None, w, written))"

definition Propagate :: "tree \<Rightarrow> world \<Rightarrow> node \<Rightarrow> (error option \<times> world \<times> string list) option" where
  "Propagate t w n =
     (case rand_Read t of
        Inl err \<Rightarrow> Some (Some err, w, [])
      | Inr bytes \<Rightarrow>
          (let etag = hex_EncodeToString bytes
           in case (if pw_EnableHome t then pw_HomeNode t else pw_RootNode t) of
                Inl err \<Rightarrow> Some (Some err, w, [])
              | Inr root \<Rightarrow> Propagate_loop t etag root w n []))"

text \<open>
  \<^verbatim>\<open>Tree.Move\<close>. \<open>Move_propagate\<close> is its end for a move to another parent: the
  propagation of the old and of the new node, each error wrapped and returned.
\<close>

definition Move_propagate :: "tree \<Rightarrow> world \<Rightarrow> node \<Rightarrow> node \<Rightarrow> (error option \<times> world) option" where
  "Move_propagate t w oldNode newNode =
     (case Propagate t w oldNode of
        None \<Rightarrow> None
      | Some (Some err, w1, written) \<Rightarrow>
          Some (Some (Wrapped ''ocisfs: Move: could not propagate old node'' err), w1)
      | Some (None, w1, written) \<Rightarrow>
          (case Propagate t w1 newNode of
             None \<Rightarrow> None
           | Some (Some err, w2, written') \<Rightarrow>
               Some (Some (Wrapped ''ocisfs: Move: could not propagate new node'' err), w2)
           | Some (None, w2, written') \<Rightarrow> Some (None, w2)))"

definition Move :: "tree \<Rightarrow> world \<Rightarrow> node \<Rightarrow> node \<Rightarrow> (error option \<times> world) option" where
  "Move t w oldNode newNode =
     (case (if Exists newNode then os_RemoveAll w (tree_nodePath t (ID newNode)) else (None, w)) of
        (Some err, w0) \<Rightarrow>
          Some (Some (Wrapped (''ocisfs: Move: error deleting target node '' @ ID newNode) err), w0)
      | (None, w0) \<Rightarrow>
          if ParentID oldNode = ParentID newNode then
            (let parentPath = tree_nodePath t (ParentID oldNode)
             in case os_Rename w0 (parentPath @ ''/'' @ Name oldNode)
                       (parentPath @ ''/'' @ Name newNode) of
                  Inl err \<Rightarrow> Some (Some (Wrapped ''ocisfs: could not rename child'' err), w0)
                | Inr w1 \<Rightarrow>
                    (case xattr_Set w1 (tree_nodePath t (ID newNode)) ''user.ocis.name''
                            (Name newNode) of
                       Inl err \<Rightarrow>
                         Some (Some (Wrapped ''ocisfs: could not set name attribute'' err), w1)
                     | Inr w2 \<Rightarrow>
                         (case Propagate t w2 newNode of
                            None \<Rightarrow> None
                          | Some (err, w3, written) \<Rightarrow> Some (err, w3))))
          else
            (case os_Rename w0 (tree_nodePath t (ParentID oldNode) @ ''/'' @ Name oldNode)
                    (tree_nodePath t (ParentID newNode) @ ''/'' @ Name newNode) of
               Inl err \<Rightarrow> Some (Some (Wrapped ''ocisfs: could not move child'' err), w0)
             | Inr w1 \<Rightarrow>
                 (case xattr_Set w1 (tree_nodePath t (ID newNode)) ''user.ocis.parentid''
                         (ParentID newNode) of
                    Inl err \<Rightarrow>
                      Some (Some (Wrapped ''ocisfs: could not set parentid attribute'' err), w1)
                  | Inr w2 \<Rightarrow>
                      (case xattr_Set w2 (tree_nodePath t (ID newNode)) ''user.ocis.name''
                              (Name newNode) of
                         Inl err \<Rightarrow>
                           Some (Some (Wrapped ''ocisfs: could not set name attribute'' err), w2)
                       | Inr w3 \<Rightarrow> Move_propagate t w3 oldNode newNode))))"



section \<open>A concrete installation\<close>

text \<open>
  A small installation on which the operations are evaluated below. Paths are
  \<open>space/nodes/id\<close>, the backend keeps its files beside the node (\<open>.mpk\<close>, \<open>.mlock\<close>), every
  permission is granted, nothing is locked, propagation does nothing, and the mtime of a
  node is its mtime attribute. Time stamps are small numbers written in decimal, which
  stands in for the RFC3339 text of a real installation.
\<close>

definition example_base :: env where
  "example_base =
     \<lparr>InternalPath = (\<lambda>spaceID nodeID. spaceID @ ''/nodes/'' @ nodeID),
      LockfilePath = (\<lambda>p. p @ ''.mlock''),
      MetadataPath = (\<lambda>p. p @ ''.mpk''),
      IsMetaFile = (\<lambda>p. suffix ''.mpk'' p \<or> suffix ''.mlock'' p),
      NodeFromResource = (\<lambda>w ref. Inl (NotFound (Path ref))),
      AssemblePermissions = (\<lambda>w n. Inr \<lparr>ListFileVersions = True, InitiateFileDownload = True,
                                         RestoreFileVersion = True, Stat = True\<rparr>),
      FormatReference = (\<lambda>ref. Path ref),
      CheckLock = (\<lambda>w n. None),
      lockedfile_OpenFile = (\<lambda>w p. None),
      GetMTime = (\<lambda>w n. case backend_GetInt64 w (SpaceID n @ ''/nodes/'' @ ID n) MTimeAttr of
                             Inl err \<Rightarrow> Inl err
                           | Inr v \<Rightarrow> Inr (sint v)),
      CalculateEtag = (\<lambda>n t. Inr (BlobID n)),
      SetCurrentRevision = (\<lambda>w n revisionKey. (None, w)),
      tp_Propagate = (\<lambda>w n sizeDiff. (None, w)),
      filepath_Glob = (\<lambda>w pattern. Inr []),
      filepath_Join = (\<lambda>a b. a @ ''/'' @ b),
      time_Now = 2000,
      time_Format = (\<lambda>t. strconv_FormatInt (word_of_int t)),
      err_Error = (\<lambda>err. ''error'')\<rparr>"

definition example_env :: env where
  "example_env =
     example_base\<lparr>NodeFromResource :=
       (\<lambda>w ref. case ResourceId ref of
                   None \<Rightarrow> Inl (NotFound (Path ref))
                 | Some rid \<Rightarrow> ReadNode example_base w (SpaceId rid) (OpaqueId rid))\<rparr>"

text \<open>
  The node \<open>n1\<close> of space \<open>s1\<close>: 150 bytes in blob \<open>b3\<close>, mtime 1000. Its revisions: at 500
  (50 bytes, blob \<open>b1\<close>) and at 800 (80 bytes, blob \<open>b2\<close>); one at 600 whose metadata cannot
  be read; one at 900 without an mtime attribute. There is no revision at 700.
\<close>

definition example_world :: world where
  "example_world =
     \<lparr>files = [''s1/nodes/n1'' \<mapsto> 1000, ''s1/nodes/n1.REV.500'' \<mapsto> 500,
               ''s1/nodes/n1.REV.600'' \<mapsto> 600, ''s1/nodes/n1.REV.800'' \<mapsto> 800,
               ''s1/nodes/n1.REV.900'' \<mapsto> 900],
      meta = [''s1/nodes/n1'' \<mapsto>
                Attrs [BlobIDAttr \<mapsto> ''b3'', BlobsizeAttr \<mapsto> ''150'', MTimeAttr \<mapsto> ''1000'',
                       NameAttr \<mapsto> ''a.txt'', ParentidAttr \<mapsto> ''root''],
              ''s1/nodes/n1.REV.500'' \<mapsto>
                Attrs [BlobIDAttr \<mapsto> ''b1'', BlobsizeAttr \<mapsto> ''50'', MTimeAttr \<mapsto> ''500''],
              ''s1/nodes/n1.REV.600'' \<mapsto> Unreadable (OtherError ''input/output error''),
              ''s1/nodes/n1.REV.800'' \<mapsto>
                Attrs [BlobIDAttr \<mapsto> ''b2'', BlobsizeAttr \<mapsto> ''80'', MTimeAttr \<mapsto> ''800''],
              ''s1/nodes/n1.REV.900'' \<mapsto>
                Attrs [BlobIDAttr \<mapsto> ''b9'', BlobsizeAttr \<mapsto> ''90'']],
      blobs = [(''s1'', ''n1'', ''b3'') \<mapsto> ''current content'',
               (''s1'', ''n1.REV.500'', ''b1'') \<mapsto> ''content at 500'',
               (''s1'', ''n1.REV.800'', ''b2'') \<mapsto> ''content at 800'']\<rparr>"

text \<open>The same with one more revision, whose time stamp is the mtime of the node.\<close>

definition collision_world :: world where
  "collision_world =
     example_world
       \<lparr>files := (files example_world)(''s1/nodes/n1.REV.1000'' \<mapsto> 1000),
        meta := (meta example_world)
                  (''s1/nodes/n1.REV.1000'' \<mapsto>
                     Attrs [BlobIDAttr \<mapsto> ''b0'', BlobsizeAttr \<mapsto> ''10'', MTimeAttr \<mapsto> ''1000''])\<rparr>"

definition example_ref :: reference where
  "example_ref =
     \<lparr>ResourceId = Some \<lparr>StorageId = ''st'', SpaceId = ''s1'', OpaqueId = ''n1''\<rparr>,
      Path = ''.''\<rparr>"

definition example_node :: node where
  "example_node =
     \<lparr>SpaceID = ''s1'', ID = ''n1'', ParentID = ''root'', Name = ''a.txt'', Exists = True,
      BlobID = ''b3'', Blobsize = 150\<rparr>"







text \<open>Three variants of the installation: one whose propagation fails, one whose
  permission engine grants nothing, and one whose glob finds five entries beside the node.\<close>

definition failing_propagation_env :: env where
  "failing_propagation_env =
     example_env\<lparr>tp_Propagate := (\<lambda>w n sizeDiff. (Some (OtherError ''propagation failed''), w))\<rparr>"

definition no_permission_env :: env where
  "no_permission_env =
     example_env\<lparr>AssemblePermissions :=
       (\<lambda>w n. Inr \<lparr>ListFileVersions = False, InitiateFileDownload = False,
                     RestoreFileVersion = False, Stat = False\<rparr>)\<rparr>"


section \<open>Facts about the string functions\<close>

lemma strings_Index_None_iff:
  "strings_Index s sep = None \<longleftrightarrow> \<not> sublist sep s"
proof (induction s)
  case Nil
  then show ?case by simp
next
  case (Cons c cs)
  then show ?case
    by (auto simp: sublist_Cons_right)
qed

lemma strings_Index_first:
  assumes "prefix sep (drop m s)" and "m \<le> length s"
    and "\<forall>k<m. \<not> prefix sep (drop k s)"
  shows "strings_Index s sep = Some m"
  using assms
proof (induction s arbitrary: m)
  case Nil
  then show ?case by auto
next
  case (Cons c cs)
  show ?case
  proof (cases m)
    case 0
    with Cons.prems show ?thesis by simp
  next
    case (Suc m')
    with Cons.prems have "\<not> prefix sep (c # cs)" by fastforce
    moreover have "strings_Index cs sep = Some m'"
      using Cons.prems Suc by (intro Cons.IH) auto
    ultimately show ?thesis using Suc by simp
  qed
qed

lemma delimiter_not_across:
  assumes nc: "\<not> strings_Contains nodeID RevisionIDDelimiter"
    and ns: "\<not> suffix ''.REV'' nodeID"
    and k: "k < length nodeID"
  shows "\<not> prefix RevisionIDDelimiter (drop k (nodeID @ RevisionIDDelimiter @ revision))"
proof
  assume p: "prefix RevisionIDDelimiter (drop k (nodeID @ RevisionIDDelimiter @ revision))"
  define u where "u = drop k nodeID"
  have id: "nodeID = take k nodeID @ u" by (simp add: u_def)
  have u_ne: "u \<noteq> []" using k by (simp add: u_def)
  from p k have p': "prefix ''.REV.'' (u @ ''.REV.'' @ revision)"
    by (simp add: u_def RevisionIDDelimiter_def)
  have nsub: "\<not> sublist ''.REV.'' nodeID"
    using nc by (simp add: strings_Contains_def strings_Index_None_iff RevisionIDDelimiter_def)
  have not_pre: "\<not> prefix ''.REV.'' u"
  proof
    assume "prefix ''.REV.'' u"
    then obtain r where "u = ''.REV.'' @ r" by (auto simp: prefix_def)
    with id have "nodeID = take k nodeID @ ''.REV.'' @ r" by simp
    then have "sublist ''.REV.'' nodeID" unfolding sublist_def by blast
    with nsub show False by simp
  qed
  have not_suf: "u \<noteq> ''.REV''"
  proof
    assume "u = ''.REV''"
    with id have "suffix ''.REV'' nodeID" by (metis suffixI)
    with ns show False by simp
  qed
  show False
  proof (cases u)
    case Nil
    with u_ne show ?thesis by simp
  next
    case c1: (Cons a u1)
    show ?thesis
    proof (cases u1)
      case Nil
      with c1 p' show ?thesis by simp
    next
      case c2: (Cons b u2)
      show ?thesis
      proof (cases u2)
        case Nil
        with c1 c2 p' show ?thesis by simp
      next
        case c3: (Cons c u3)
        show ?thesis
        proof (cases u3)
          case Nil
          with c1 c2 c3 p' show ?thesis by simp
        next
          case c4: (Cons d u4)
          show ?thesis
          proof (cases u4)
            case Nil
            with c1 c2 c3 c4 p' not_suf show ?thesis by simp
          next
            case (Cons e u5)
            with c1 c2 c3 c4 p' not_pre show ?thesis by auto
          qed
        qed
      qed
    qed
  qed
qed

section \<open>Facts about the model\<close>

subsection \<open>Pointwise forms of the map operations\<close>

lemma strings_SplitN_2:
  "strings_SplitN s sep 2 =
     (case strings_Index s sep of None \<Rightarrow> [s] | Some m \<Rightarrow> [take m s, drop (m + length sep) s])"
  by (simp add: strings_SplitN_def numeral_2_eq_2 split: option.splits)

lemma filter_attrs_apply:
  "filter_attrs f a k =
     (case a k of None \<Rightarrow> None | Some v \<Rightarrow> (if snd (f k v) then Some (fst (f k v)) else None))"
  by (simp add: filter_attrs_def)

lemma map_add_apply: "(m1 ++ m2) k = (case m2 k of None \<Rightarrow> m1 k | Some v \<Rightarrow> Some v)"
  by (simp add: map_add_def)

lemmas attr_names = OcisPrefix_def TypeAttr_def BlobIDAttr_def BlobsizeAttr_def MTimeAttr_def
  ChecksumPrefix_def ParentidAttr_def NameAttr_def XSSHA1_def XSMD5_def XSAdler32_def

subsection \<open>Reading a revision\<close>

lemma ReadRevision_not_exist:
  assumes "node_Xattrs e w (RevisionNode n ts) = Inl err" and "IsNotExist err"
  shows "ReadRevision e w n ts = Inr (RevisionNode n ts)"
  using assms by (simp add: ReadRevision_def)

subsection \<open>The deferred cleanup\<close>

lemma os_Remove_gone: "files (snd (os_Remove w p)) p = None"
  by (simp add: os_Remove_def split: option.splits)

lemma os_Remove_meta: "meta (snd (os_Remove w p)) = meta w"
  by (simp add: os_Remove_def split: option.splits)

lemma backend_Purge_gone: "meta (snd (backend_Purge w p)) p = None"
  by (simp add: backend_Purge_def)

lemma backend_Purge_files: "files (snd (backend_Purge w p)) = files w"
  by (simp add: backend_Purge_def)

lemma RestoreRevision_deferred_fst: "fst (RestoreRevision_deferred e p r) = fst r"
  by (cases r) (simp add: RestoreRevision_deferred_def Let_def split: option.splits)

lemma RestoreRevision_deferred_cleanup:
  assumes "fst r = Some err"
  shows "files (snd (RestoreRevision_deferred e p r)) p = None"
    and "meta (snd (RestoreRevision_deferred e p r)) p = None"
  using assms
  by (cases r; simp add: RestoreRevision_deferred_def Let_def backend_Purge_gone
        backend_Purge_files os_Remove_gone)+

lemma RestoreRevision_prepare_created:
  assumes "RestoreRevision_prepare e w ref revisionKey = Inr (n, spaceID, nodeID, mtime, w1)"
  shows "files w1 (newRevisionPathOf e spaceID nodeID mtime) = Some (time_Now e)"
  using assms
  by (auto simp: RestoreRevision_prepare_def Let_def os_Create_def
      split: if_splits option.splits sum.splits)

subsection \<open>Blob sizes before and after the promotion\<close>



lemma ReadNode_ids:
  assumes "ReadNode e w spaceID nodeID = Inr n"
  shows "SpaceID n = spaceID \<and> ID n = nodeID"
  using assms
  by (auto simp: ReadNode_def Let_def split: sum.splits if_splits)


lemma CopyMetadata_effect:
  assumes "CopyMetadata w src tgt f = Inr w'"
  shows "\<exists>a_s a_t. backend_All w src = Inr a_s \<and> meta w' tgt = Some (Attrs a_t)
           \<and> (\<forall>k v. a_s k = Some v \<longrightarrow> snd (f k v) \<longrightarrow> a_t k = Some (fst (f k v)))
           \<and> (\<forall>p. p \<noteq> tgt \<longrightarrow> meta w' p = meta w p)
           \<and> files w' = files w \<and> blobs w' = blobs w"
  using assms
  by (auto simp: CopyMetadata_def backend_SetMultiple_def filter_attrs_apply map_add_apply
      split: sum.splits option.splits xattr_entry.splits)




subsection \<open>Formatting and parsing an integer\<close>






subsection \<open>The walk to the root\<close>










subsection \<open>The end of the restore, and the upload\<close>





subsection \<open>The loop of the listing\<close>



subsection \<open>The two metadata copies of the restore\<close>

lemma copyToRevisionFilter_blobAttr:
  "blobAttr k \<or> k = MTimeAttr \<Longrightarrow> copyToRevisionFilter k v = (v, True)"
  by (auto simp: copyToRevisionFilter_def blobAttr_def)

lemma MTimeAttr_not_blobAttr: "\<not> blobAttr MTimeAttr"
  by (simp add: blobAttr_def strings_HasPrefix_def attr_names)

lemma copyToNodeFilter_blobAttr:
  "blobAttr k \<Longrightarrow> copyToNodeFilter e k v = (v, True)"
  using MTimeAttr_not_blobAttr by (auto simp: copyToNodeFilter_def blobAttr_def)

lemma copyToNodeFilter_MTimeAttr:
  "copyToNodeFilter e MTimeAttr v = (time_Format e (time_Now e), True)"
  by (simp add: copyToNodeFilter_def)

lemma os_Chtimes_meta: "os_Chtimes w p t = Inr w' \<Longrightarrow> meta w' = meta w"
  by (auto simp: os_Chtimes_def split: option.splits)

lemma RestoreRevision_prepare_meta:
  assumes "RestoreRevision_prepare e w ref revisionKey = Inr (n, spaceID, nodeID, mtime, w1)"
  shows "meta w1 = meta w"
  using assms
  by (auto simp: RestoreRevision_prepare_def Let_def os_Create_def
      split: if_splits option.splits sum.splits)

lemma RestoreRevision_promote_effect:
  assumes prom: "RestoreRevision_promote e w1 revisionKey n spaceID nodeID mtime = Inr (revisionSize, w5)"
    and dist: "InternalPath e spaceID nodeID \<noteq> newRevisionPathOf e spaceID nodeID mtime"
      "InternalPath e spaceID revisionKey \<noteq> newRevisionPathOf e spaceID nodeID mtime"
      "InternalPath e spaceID revisionKey \<noteq> InternalPath e spaceID nodeID"
    and frame: "\<forall>w k r p. SetCurrentRevision e w n k = r \<longrightarrow> p \<noteq> InternalPath e spaceID nodeID
                  \<longrightarrow> meta (snd r) p = meta w p"
  shows "\<exists>a_n a_r a_v a_n'.
           backend_All w1 (InternalPath e spaceID nodeID) = Inr a_n
         \<and> backend_All w1 (InternalPath e spaceID revisionKey) = Inr a_r
         \<and> backend_All w5 (newRevisionPathOf e spaceID nodeID mtime) = Inr a_v
         \<and> backend_All w5 (InternalPath e spaceID nodeID) = Inr a_n'
         \<and> (\<forall>k v. (blobAttr k \<or> k = MTimeAttr) \<and> a_n k = Some v \<longrightarrow> a_v k = Some v)
         \<and> (\<forall>k v. blobAttr k \<and> a_r k = Some v \<longrightarrow> a_n' k = Some v)
         \<and> (\<forall>v. a_r MTimeAttr = Some v \<longrightarrow> a_n' MTimeAttr = Some (time_Format e (time_Now e)))"
proof -
  let ?N = "InternalPath e spaceID nodeID"
  let ?V = "newRevisionPathOf e spaceID nodeID mtime"
  let ?R = "InternalPath e spaceID revisionKey"
  from prom obtain w2 w3 w4 where
    c1: "CopyMetadata w1 ?N ?V copyToRevisionFilter = Inr w2"
    and ch: "os_Chtimes w2 ?V mtime = Inr w3"
    and sc: "SetCurrentRevision e w3 n revisionKey = (None, w4)"
    and c2: "CopyMetadata w4 ?R ?N (copyToNodeFilter e) = Inr w5"
    by (auto simp: RestoreRevision_promote_def CopyMetadataWithSourceLock_def Let_def
        split: sum.splits prod.splits option.splits)
  from CopyMetadata_effect[OF c1] obtain a_n a_v where
    n1: "backend_All w1 ?N = Inr a_n" and v2: "meta w2 ?V = Some (Attrs a_v)"
    and cp1: "\<forall>k v. a_n k = Some v \<longrightarrow> snd (copyToRevisionFilter k v) \<longrightarrow>
                 a_v k = Some (fst (copyToRevisionFilter k v))"
    and fr1: "\<forall>p. p \<noteq> ?V \<longrightarrow> meta w2 p = meta w1 p"
    by blast
  have m3: "meta w3 = meta w2" using ch by (rule os_Chtimes_meta)
  have fr4: "\<forall>p. p \<noteq> ?N \<longrightarrow> meta w4 p = meta w3 p"
    using frame sc by (metis snd_conv)
  from CopyMetadata_effect[OF c2] obtain a_r a_n' where
    r4: "backend_All w4 ?R = Inr a_r" and n5: "meta w5 ?N = Some (Attrs a_n')"
    and cp2: "\<forall>k v. a_r k = Some v \<longrightarrow> snd (copyToNodeFilter e k v) \<longrightarrow>
                 a_n' k = Some (fst (copyToNodeFilter e k v))"
    and fr5: "\<forall>p. p \<noteq> ?N \<longrightarrow> meta w5 p = meta w4 p"
    by blast
  have "meta w4 ?R = meta w1 ?R" using fr4 fr1 m3 dist by simp
  with r4 have r1: "backend_All w1 ?R = Inr a_r" by (simp add: backend_All_def)
  have "meta w5 ?V = meta w2 ?V" using fr5 fr4 m3 dist by simp
  with v2 have v5: "backend_All w5 ?V = Inr a_v" by (simp add: backend_All_def)
  from n5 have n5': "backend_All w5 ?N = Inr a_n'" by (simp add: backend_All_def)
  have p1: "\<forall>k v. (blobAttr k \<or> k = MTimeAttr) \<and> a_n k = Some v \<longrightarrow> a_v k = Some v"
    using cp1 by (auto simp: copyToRevisionFilter_blobAttr)
  have p2: "\<forall>k v. blobAttr k \<and> a_r k = Some v \<longrightarrow> a_n' k = Some v"
    using cp2 by (auto simp: copyToNodeFilter_blobAttr)
  have p3: "\<forall>v. a_r MTimeAttr = Some v \<longrightarrow> a_n' MTimeAttr = Some (time_Format e (time_Now e))"
    using cp2 by (auto simp: copyToNodeFilter_MTimeAttr)
  from n1 r1 v5 n5' p1 p2 p3 show ?thesis by blast
qed

section \<open>Evaluating the concrete installation\<close>

lemma example_env_fields:
  "InternalPath example_env = (\<lambda>spaceID nodeID. spaceID @ ''/nodes/'' @ nodeID)"
  "LockfilePath example_env = (\<lambda>p. p @ ''.mlock'')"
  "MetadataPath example_env = (\<lambda>p. p @ ''.mpk'')"
  "IsMetaFile example_env = (\<lambda>p. suffix ''.mpk'' p \<or> suffix ''.mlock'' p)"
  "NodeFromResource example_env =
     (\<lambda>w ref. case ResourceId ref of
                 None \<Rightarrow> Inl (NotFound (Path ref))
               | Some rid \<Rightarrow> ReadNode example_base w (SpaceId rid) (OpaqueId rid))"
  "AssemblePermissions example_env =
     (\<lambda>w n. Inr \<lparr>ListFileVersions = True, InitiateFileDownload = True,
                   RestoreFileVersion = True, Stat = True\<rparr>)"
  "FormatReference example_env = Path"
  "CheckLock example_env = (\<lambda>w n. None)"
  "lockedfile_OpenFile example_env = (\<lambda>w p. None)"
  "GetMTime example_env =
     (\<lambda>w n. case backend_GetInt64 w (SpaceID n @ ''/nodes/'' @ ID n) MTimeAttr of
               Inl err \<Rightarrow> Inl err
             | Inr v \<Rightarrow> Inr (sint v))"
  "CalculateEtag example_env = (\<lambda>n t. Inr (BlobID n))"
  "SetCurrentRevision example_env = (\<lambda>w n revisionKey. (None, w))"
  "tp_Propagate example_env = (\<lambda>w n sizeDiff. (None, w))"
  "filepath_Glob example_env = (\<lambda>w pattern. Inr [])"
  "filepath_Join example_env = (\<lambda>a b. a @ ''/'' @ b)"
  "time_Now example_env = 2000"
  "time_Format example_env = (\<lambda>t. strconv_FormatInt (word_of_int t))"
  "err_Error example_env = (\<lambda>err. ''error'')"
  "InternalPath example_base = (\<lambda>spaceID nodeID. spaceID @ ''/nodes/'' @ nodeID)"
  by (simp_all add: example_env_def example_base_def)

lemma example_world_fields:
  "files example_world =
     [''s1/nodes/n1'' \<mapsto> 1000, ''s1/nodes/n1.REV.500'' \<mapsto> 500,
      ''s1/nodes/n1.REV.600'' \<mapsto> 600, ''s1/nodes/n1.REV.800'' \<mapsto> 800,
      ''s1/nodes/n1.REV.900'' \<mapsto> 900]"
  "meta example_world =
     [''s1/nodes/n1'' \<mapsto>
        Attrs [BlobIDAttr \<mapsto> ''b3'', BlobsizeAttr \<mapsto> ''150'', MTimeAttr \<mapsto> ''1000'',
               NameAttr \<mapsto> ''a.txt'', ParentidAttr \<mapsto> ''root''],
      ''s1/nodes/n1.REV.500'' \<mapsto>
        Attrs [BlobIDAttr \<mapsto> ''b1'', BlobsizeAttr \<mapsto> ''50'', MTimeAttr \<mapsto> ''500''],
      ''s1/nodes/n1.REV.600'' \<mapsto> Unreadable (OtherError ''input/output error''),
      ''s1/nodes/n1.REV.800'' \<mapsto>
        Attrs [BlobIDAttr \<mapsto> ''b2'', BlobsizeAttr \<mapsto> ''80'', MTimeAttr \<mapsto> ''800''],
      ''s1/nodes/n1.REV.900'' \<mapsto>
        Attrs [BlobIDAttr \<mapsto> ''b9'', BlobsizeAttr \<mapsto> ''90'']]"
  "blobs example_world =
     [(''s1'', ''n1'', ''b3'') \<mapsto> ''current content'',
      (''s1'', ''n1.REV.500'', ''b1'') \<mapsto> ''content at 500'',
      (''s1'', ''n1.REV.800'', ''b2'') \<mapsto> ''content at 800'']"
  by (simp_all add: example_world_def)

lemmas eval_defs = ReadNode_def node_Xattrs_def node_InternalPath_def backend_All_def
  backend_SetMultiple_def backend_GetInt64_def backend_Purge_def CopyMetadata_def
  CopyMetadataWithSourceLock_def filter_attrs_apply copyToRevisionFilter_def copyToNodeFilter_def
  os_Create_def os_Remove_def os_RemoveAll_def os_Chtimes_def endsWithDot_def
  blobstore_Download_def blobstore_Delete_def RevisionNode_def ReadRevision_def
  dropOldRevision_def newRevisionPathOf_def
  attrs_Int64_def attrs_String_def strconv_ParseInt_def digit_of_def strconv_FormatInt_def
  strings_SplitN_2 strings_HasPrefix_def RevisionIDDelimiter_def JoinRevisionKey_def
  map_add_apply Let_def format_nat.simps attr_names example_env_fields example_world_fields
  suffix_to_prefix

lemma example_ReadNode:
  "ReadNode example_env example_world ''s1'' ''n1'' = Inr example_node"
  "ReadNode example_env collision_world ''s1'' ''n1'' = Inr example_node"
  by (simp_all add: eval_defs collision_world_def example_node_def)

lemma example_prepare:
  "RestoreRevision_prepare example_env example_world example_ref ''n1.REV.500''
     = Inr (example_node, ''s1'', ''n1'', 1000,
            example_world\<lparr>files := (files example_world)(''s1/nodes/n1.REV.1000'' \<mapsto> 2000)\<rparr>)"
  "RestoreRevision_prepare example_env example_world example_ref ''n1.REV.700''
     = Inr (example_node, ''s1'', ''n1'', 1000,
            example_world\<lparr>files := (files example_world)(''s1/nodes/n1.REV.1000'' \<mapsto> 2000)\<rparr>)"
  "RestoreRevision_prepare failing_propagation_env example_world example_ref ''n1.REV.500''
     = Inr (example_node, ''s1'', ''n1'', 1000,
            example_world\<lparr>files := (files example_world)(''s1/nodes/n1.REV.1000'' \<mapsto> 2000)\<rparr>)"
  by (simp_all add: RestoreRevision_prepare_def failing_propagation_env_def eval_defs
      example_ref_def example_node_def)

lemma collision_prepare:
  "RestoreRevision_prepare example_env collision_world example_ref ''n1.REV.1000''
     = Inr (example_node, ''s1'', ''n1'', 1000,
            collision_world\<lparr>files := (files collision_world)(''s1/nodes/n1.REV.1000'' \<mapsto> 2000)\<rparr>)"
  by (simp add: RestoreRevision_prepare_def collision_world_def eval_defs
      example_ref_def example_node_def)

lemma example_promote_500:
  "\<exists>w5. RestoreRevision_promote example_env
           (example_world\<lparr>files := (files example_world)(''s1/nodes/n1.REV.1000'' \<mapsto> 2000)\<rparr>)
           ''n1.REV.500'' example_node ''s1'' ''n1'' 1000 = Inr (50, w5)"
  by (simp add: RestoreRevision_promote_def eval_defs example_node_def)


lemma example_restore_700:
  "fst (RestoreRevision example_env example_world example_ref ''n1.REV.700'')
     = Some (InternalError ''failed to copy blob xattrs to old revision to node: error'')"
  by (simp add: RestoreRevision_def example_prepare RestoreRevision_deferred_fst
      RestoreRevision_locked_def RestoreRevision_promote_def eval_defs example_node_def)

lemma example_restore_500:
  "fst (RestoreRevision example_env example_world example_ref ''n1.REV.500'') = None"
  by (simp add: RestoreRevision_def example_prepare RestoreRevision_deferred_fst
      RestoreRevision_locked_def RestoreRevision_promote_def eval_defs example_node_def)








lemma example_paths:
  "newRevisionPathOf example_env ''s1'' ''n1'' 1000 = ''s1/nodes/n1.REV.1000''"
  "InternalPath example_env ''s1'' ''n1.REV.500'' = ''s1/nodes/n1.REV.500''"
  "InternalPath example_env ''s1'' ''n1'' = ''s1/nodes/n1''"
  by (simp_all add: newRevisionPathOf_def example_env_fields RevisionIDDelimiter_def
      strconv_FormatInt_def format_nat.simps)

section \<open>The claims\<close>

subsection \<open>C1: what a restore leaves on the node and in the new revision\<close>

text \<open>
  C1. The claim: every successful \<^verbatim>\<open>RestoreRevision\<close> creates a new revision, keyed by
  the node's mtime, that holds the node's blob attributes, and puts the blob attributes of
  the target revision on the node. The code departs from it where the time stamp of the
  target revision is the node's mtime (the case the FIXME at the first metadata copy
  speaks of): the path of the new revision is then the path of the target, whose blob
  attributes are overwritten with the node's before they are read. Evaluated on the node
  \<open>n1\<close> (blob \<open>b3\<close>, mtime 1000) and its revision at 1000 (blob \<open>b0\<close>): the restore
  succeeds, the node still has blob \<open>b3\<close> and size 150, and neither a file nor metadata is
  left at the revision's path.
\<close>

theorem RestoreRevision_same_timestamp_loses_revision:
  "xattr_Get collision_world ''s1/nodes/n1'' BlobIDAttr = Inr ''b3''
   \<and> xattr_Get collision_world ''s1/nodes/n1.REV.1000'' BlobIDAttr = Inr ''b0''
   \<and> GetMTime example_env collision_world example_node = Inr 1000
   \<and> (case RestoreRevision example_env collision_world example_ref ''n1.REV.1000'' of
         (err, w') \<Rightarrow>
           err = None
           \<and> xattr_Get w' ''s1/nodes/n1'' BlobIDAttr = Inr ''b3''
           \<and> xattr_Get w' ''s1/nodes/n1'' BlobsizeAttr = Inr ''150''
           \<and> meta w' ''s1/nodes/n1.REV.1000'' = None
           \<and> files w' ''s1/nodes/n1.REV.1000'' = None)"
  by (simp add: RestoreRevision_def collision_prepare)
     (simp add: RestoreRevision_locked_def RestoreRevision_promote_def
      RestoreRevision_deferred_def xattr_Get_def collision_world_def eval_defs example_node_def)

subsection \<open>C2: a failed restore removes the revision it created\<close>

text \<open>
  C2. When \<^verbatim>\<open>RestoreRevision\<close> has created the new revision file (the preparation
  returned, so the file is on the disk) and then returns an error, from whichever later
  step, the disk it leaves has no file at the path of the new revision and the backend
  holds no metadata for it.
\<close>

theorem RestoreRevision_failure_removes_new_revision:
  assumes prep: "RestoreRevision_prepare e w ref revisionKey = Inr (n, spaceID, nodeID, mtime, w1)"
    and fails: "fst (RestoreRevision e w ref revisionKey) = Some err"
  shows "files w1 (newRevisionPathOf e spaceID nodeID mtime) = Some (time_Now e)
     \<and> files (snd (RestoreRevision e w ref revisionKey)) (newRevisionPathOf e spaceID nodeID mtime) = None
     \<and> meta (snd (RestoreRevision e w ref revisionKey)) (newRevisionPathOf e spaceID nodeID mtime) = None"
proof -
  let ?r = "RestoreRevision_locked e w1 revisionKey n spaceID nodeID mtime"
  let ?p = "newRevisionPathOf e spaceID nodeID mtime"
  have eq: "RestoreRevision e w ref revisionKey = RestoreRevision_deferred e ?p ?r"
    using prep by (simp add: RestoreRevision_def)
  with fails have "fst ?r = Some err"
    by (simp add: RestoreRevision_deferred_fst)
  then show ?thesis
    using RestoreRevision_prepare_created[OF prep] RestoreRevision_deferred_cleanup[of ?r err e ?p]
    by (simp add: eq)
qed

text \<open>An instance: restoring the revision at 700, which does not exist, fails at the copy
  of its attributes; the revision file that was created at 1000 is gone afterwards.\<close>

theorem RestoreRevision_failure_removes_new_revision_witness:
  "fst (RestoreRevision example_env example_world example_ref ''n1.REV.700'')
     = Some (InternalError ''failed to copy blob xattrs to old revision to node: error'')
   \<and> files (snd (RestoreRevision example_env example_world example_ref ''n1.REV.700''))
        ''s1/nodes/n1.REV.1000'' = None
   \<and> meta (snd (RestoreRevision example_env example_world example_ref ''n1.REV.700''))
        ''s1/nodes/n1.REV.1000'' = None"
  using RestoreRevision_failure_removes_new_revision [OF example_prepare(2) example_restore_700] example_restore_700
  by (simp add: newRevisionPathOf_def example_env_fields RevisionIDDelimiter_def
      strconv_FormatInt_def format_nat.simps)

subsection \<open>C3: revision keys round trip\<close>

text \<open>
  C3 (as amended). For a node id that neither contains the delimiter \<open>.REV.\<close> nor ends in
  \<open>.REV\<close>, and any timestamp, splitting the joined key gives the id and the timestamp back;
  the joined key is the id, the delimiter and the timestamp in this order; and a key
  without the delimiter splits into itself and the empty string.
\<close>

theorem SplitRevisionKey_roundtrip:
  "(\<not> strings_Contains nodeID RevisionIDDelimiter \<and> \<not> suffix ''.REV'' nodeID
      \<longrightarrow> SplitRevisionKey (JoinRevisionKey nodeID ts) = (nodeID, ts))
   \<and> JoinRevisionKey nodeID ts = nodeID @ ''.REV.'' @ ts
   \<and> (\<not> strings_Contains key RevisionIDDelimiter \<longrightarrow> SplitRevisionKey key = (key, ''''))"
proof (intro conjI impI)
  assume h: "\<not> strings_Contains nodeID RevisionIDDelimiter \<and> \<not> suffix ''.REV'' nodeID"
  let ?s = "nodeID @ RevisionIDDelimiter @ ts"
  have "strings_Index ?s RevisionIDDelimiter = Some (length nodeID)"
    by (rule strings_Index_first) (use h delimiter_not_across in auto)
  then show "SplitRevisionKey (JoinRevisionKey nodeID ts) = (nodeID, ts)"
    by (simp add: SplitRevisionKey_def JoinRevisionKey_def strings_SplitN_def numeral_2_eq_2)
next
  show "JoinRevisionKey nodeID ts = nodeID @ ''.REV.'' @ ts"
    by (simp add: JoinRevisionKey_def RevisionIDDelimiter_def)
next
  assume "\<not> strings_Contains key RevisionIDDelimiter"
  then show "SplitRevisionKey key = (key, '''')"
    by (simp add: SplitRevisionKey_def strings_SplitN_def numeral_2_eq_2 strings_Contains_def)
qed

text \<open>An instance: a node id and a time stamp as they occur.\<close>

theorem SplitRevisionKey_roundtrip_witness:
  "\<not> strings_Contains ''4c510ada'' RevisionIDDelimiter \<and> \<not> suffix ''.REV'' ''4c510ada''
   \<and> SplitRevisionKey (JoinRevisionKey ''4c510ada'' ''2024-01-01T00:00:00Z'')
       = (''4c510ada'', ''2024-01-01T00:00:00Z'')
   \<and> SplitRevisionKey ''4c510ada'' = (''4c510ada'', '''')"
proof -
  have h: "\<not> strings_Contains ''4c510ada'' RevisionIDDelimiter \<and> \<not> suffix ''.REV'' ''4c510ada''"
    by (simp add: strings_Contains_def RevisionIDDelimiter_def suffix_def)
  with SplitRevisionKey_roundtrip [of "''4c510ada''" "''2024-01-01T00:00:00Z''" "''4c510ada''"]
  show ?thesis by blast
qed

text \<open>
  The claim as first stated asks only that the id does not contain the delimiter. The id
  \<open>.REV\<close> does not contain it, yet the joined key \<open>.REV.REV.t\<close> has the delimiter at
  position 0, before the one that was appended, and the split cuts there.
\<close>

theorem SplitRevisionKey_overlap_counterexample:
  "\<not> strings_Contains ''.REV'' RevisionIDDelimiter
   \<and> SplitRevisionKey (JoinRevisionKey ''.REV'' ''t'') = ('''', ''REV.t'')
   \<and> SplitRevisionKey (JoinRevisionKey ''.REV'' ''t'') \<noteq> (''.REV'', ''t'')"
  by (simp add: strings_Contains_def SplitRevisionKey_def JoinRevisionKey_def
      RevisionIDDelimiter_def strings_SplitN_def numeral_2_eq_2)

subsection \<open>C4: listing never fails on an entry\<close>



subsection \<open>C5: a missing permission\<close>

text \<open>
  C5. The claim: each of the four revision operations, on an existing node and without the
  permission it needs, answers \<^verbatim>\<open>PermissionDenied\<close> to a caller who may at least stat the
  node and \<^verbatim>\<open>NotFound\<close> otherwise. The code departs from it in \<^verbatim>\<open>DeleteRevision\<close>:
  \<^verbatim>\<open>getRevisionNode\<close> does not look at the stat permission. Evaluated for a caller with
  no permission at all: listing, download and restore answer \<^verbatim>\<open>NotFound\<close>, delete answers
  \<^verbatim>\<open>PermissionDenied\<close>.
\<close>

theorem DeleteRevision_denied_without_Stat:
  "ListRevisions no_permission_env example_world example_ref = Inl (NotFound ''.'')
   \<and> DownloadRevision no_permission_env example_world example_ref ''n1.REV.500''
        = Inl (NotFound ''.'')
   \<and> fst (RestoreRevision no_permission_env example_world example_ref ''n1.REV.500'')
        = Some (NotFound ''.'')
   \<and> fst (DeleteRevision no_permission_env example_world example_ref ''n1.REV.500'')
        = Some (PermissionDenied ''root/a.txt'')"
  by (simp add: ListRevisions_def DownloadRevision_def RestoreRevision_def
      RestoreRevision_prepare_def DeleteRevision_def getRevisionNode_def
      no_permission_env_def eval_defs example_ref_def)

text \<open>The answer of \<^verbatim>\<open>DeleteRevision\<close> alone.\<close>

theorem DeleteRevision_denied_without_Stat_witness:
  "fst (DeleteRevision no_permission_env example_world example_ref ''n1.REV.500'')
     = Some (PermissionDenied ''root/a.txt'')"
  using DeleteRevision_denied_without_Stat by blast

subsection \<open>C6: the size difference\<close>



subsection \<open>C7: the blob that DeleteRevision deletes\<close>

text \<open>
  C7. The claim: \<^verbatim>\<open>DeleteRevision\<close> removes the revision's entry and tells the blobstore
  to delete the blob of the revision node. The code departs from it: the node that
  \<^verbatim>\<open>getRevisionNode\<close> returns, and that is handed to \<^verbatim>\<open>blobstore.Delete\<close>, is read with
  the node id in front of the delimiter, so it is the current node, whereas
  \<^verbatim>\<open>DownloadRevision\<close> reads the revision node with \<^verbatim>\<open>ReadRevision\<close>. Evaluated on the
  revision at 500 of \<open>n1\<close>: the revision file is removed, the blob \<open>b3\<close> of the current
  content is deleted, and the blob \<open>b1\<close> of the revision is still there.
\<close>

theorem DeleteRevision_deletes_current_blob:
  "blobs example_world (''s1'', ''n1'', ''b3'') = Some ''current content''
   \<and> (case DeleteRevision example_env example_world example_ref ''n1.REV.500'' of
         (err, w') \<Rightarrow>
           err = None
           \<and> files w' ''s1/nodes/n1.REV.500'' = None
           \<and> blobs w' (''s1'', ''n1'', ''b3'') = None
           \<and> blobs w' (''s1'', ''n1.REV.500'', ''b1'') = Some ''content at 500'')"
  by (simp add: DeleteRevision_def getRevisionNode_def eval_defs example_ref_def)

subsection \<open>C8: an error of the propagation\<close>




subsection \<open>C9: the walk of Propagate\<close>



subsection \<open>C10: a revision that does not exist\<close>

text \<open>
  C10. When the backend reports a not-exist condition for the attributes of the revision
  node, \<^verbatim>\<open>ReadRevision\<close> returns that node, with \<open>Exists = False\<close>, and no error. So
  \<^verbatim>\<open>DownloadRevision\<close>, for a well-formed key on an existing node with list and download
  permission, does not answer \<^verbatim>\<open>NotFound\<close>: its result is what the blobstore gives for
  the revision node that does not exist.
\<close>

theorem ReadRevision_swallows_not_exist:
  assumes key: "strings_SplitN revisionKey RevisionIDDelimiter 2 = [nodeID, ts]"
    and ref: "ResourceId ref = Some rid"
    and node: "ReadNode e w (SpaceId rid) nodeID = Inr n" "Exists n"
    and perm: "AssemblePermissions e w n = Inr rp" "ListFileVersions rp" "InitiateFileDownload rp"
    and gone: "node_Xattrs e w (RevisionNode n ts) = Inl err" "IsNotExist err"
  shows "ReadRevision e w n ts = Inr (RevisionNode n ts)
     \<and> Exists (RevisionNode n ts) = False
     \<and> DownloadRevision e w ref revisionKey =
         (case blobstore_Download w (RevisionNode n ts) of
            Inl err' \<Rightarrow> Inl (Wrapped ''Decomposedfs: could not download blob of revision'' err')
          | Inr reader \<Rightarrow> Inr reader)
     \<and> (\<forall>x. DownloadRevision e w ref revisionKey \<noteq> Inl (NotFound x))"
proof -
  have rr: "ReadRevision e w n ts = Inr (RevisionNode n ts)"
    using gone by (rule ReadRevision_not_exist)
  have dl: "DownloadRevision e w ref revisionKey =
         (case blobstore_Download w (RevisionNode n ts) of
            Inl err' \<Rightarrow> Inl (Wrapped ''Decomposedfs: could not download blob of revision'' err')
          | Inr reader \<Rightarrow> Inr reader)"
    using key ref node perm rr by (simp add: DownloadRevision_def)
  have "\<forall>x. DownloadRevision e w ref revisionKey \<noteq> Inl (NotFound x)"
    unfolding dl by (simp split: sum.splits)
  with rr dl show ?thesis by (simp add: RevisionNode_def)
qed

text \<open>An instance: the download of the revision at 700, which does not exist, asks the
  blobstore for a blob with the empty id.\<close>

theorem ReadRevision_swallows_not_exist_witness:
  "ReadRevision example_env example_world example_node ''700''
     = Inr (RevisionNode example_node ''700'')
   \<and> Exists (RevisionNode example_node ''700'') = False
   \<and> ID (RevisionNode example_node ''700'') = ''n1.REV.700''
   \<and> DownloadRevision example_env example_world example_ref ''n1.REV.700''
       = Inl (Wrapped ''Decomposedfs: could not download blob of revision'' (ErrNotExist []))"
proof -
  have key: "strings_SplitN ''n1.REV.700'' RevisionIDDelimiter 2 = [''n1'', ''700'']"
    by (simp add: strings_SplitN_2 RevisionIDDelimiter_def)
  have ref: "ResourceId example_ref = Some \<lparr>StorageId = ''st'', SpaceId = ''s1'', OpaqueId = ''n1''\<rparr>"
    by (simp add: example_ref_def)
  have node: "ReadNode example_env example_world
                (SpaceId \<lparr>StorageId = ''st'', SpaceId = ''s1'', OpaqueId = ''n1''\<rparr>) ''n1''
                = Inr example_node"
    using example_ReadNode(1) by simp
  have ex: "Exists example_node" by (simp add: example_node_def)
  have perm: "AssemblePermissions example_env example_world example_node
                = Inr \<lparr>ListFileVersions = True, InitiateFileDownload = True,
                       RestoreFileVersion = True, Stat = True\<rparr>"
    by (simp add: example_env_fields)
  have gone: "node_Xattrs example_env example_world (RevisionNode example_node ''700'')
                = Inl (ErrNotExist ''s1/nodes/n1.REV.700'')"
    by (simp add: eval_defs example_node_def)
  have blob: "blobstore_Download example_world (RevisionNode example_node ''700'')
                = Inl (ErrNotExist [])"
    by (simp add: eval_defs example_node_def)
  from ReadRevision_swallows_not_exist [OF key ref node ex perm _ _ gone] blob show ?thesis
    by (simp add: RevisionNode_def JoinRevisionKey_def RevisionIDDelimiter_def example_node_def)
qed

section \<open>Further properties of the restore and of the permission checks\<close>

text \<open>
  Where the three paths differ (the node's, the new revision's and the restored
  revision's) and \<^verbatim>\<open>SetCurrentRevision\<close> writes to the node's own metadata only, the
  restore does what C1 says. After the promotion the new revision has, for every
  checksum, the type, the blob id, the blob size and the mtime, the value the node had
  before; the node has, for every checksum, the type, the blob id and the blob size of the
  restored revision, that value; and if the restored revision has an mtime attribute, the
  node's mtime attribute is the current time.
\<close>

theorem RestoreRevision_promotes_target:
  assumes prep: "RestoreRevision_prepare e w ref revisionKey = Inr (n, spaceID, nodeID, mtime, w1)"
    and prom: "RestoreRevision_promote e w1 revisionKey n spaceID nodeID mtime = Inr (revisionSize, w5)"
    and dist: "InternalPath e spaceID nodeID \<noteq> newRevisionPathOf e spaceID nodeID mtime"
      "InternalPath e spaceID revisionKey \<noteq> newRevisionPathOf e spaceID nodeID mtime"
      "InternalPath e spaceID revisionKey \<noteq> InternalPath e spaceID nodeID"
    and frame: "\<forall>w k r p. SetCurrentRevision e w n k = r \<longrightarrow> p \<noteq> InternalPath e spaceID nodeID
                  \<longrightarrow> meta (snd r) p = meta w p"
  shows "\<exists>a_n a_r a_v a_n'.
           backend_All w (InternalPath e spaceID nodeID) = Inr a_n
         \<and> backend_All w (InternalPath e spaceID revisionKey) = Inr a_r
         \<and> backend_All w5 (newRevisionPathOf e spaceID nodeID mtime) = Inr a_v
         \<and> backend_All w5 (InternalPath e spaceID nodeID) = Inr a_n'
         \<and> (\<forall>k v. (blobAttr k \<or> k = MTimeAttr) \<and> a_n k = Some v \<longrightarrow> a_v k = Some v)
         \<and> (\<forall>k v. blobAttr k \<and> a_r k = Some v \<longrightarrow> a_n' k = Some v)
         \<and> (\<forall>v. a_r MTimeAttr = Some v \<longrightarrow> a_n' MTimeAttr = Some (time_Format e (time_Now e)))"
proof -
  have "backend_All w1 = backend_All w"
    using RestoreRevision_prepare_meta[OF prep] by (simp add: backend_All_def fun_eq_iff)
  with RestoreRevision_promote_effect[OF prom dist frame] show ?thesis by simp
qed

text \<open>An instance: restoring the revision at 500, the new revision at 1000 gets blob
  \<open>b3\<close>, size 150 and mtime 1000, and the node gets blob \<open>b1\<close>, size 50 and mtime 2000.\<close>

theorem RestoreRevision_promotes_target_witness:
  "\<exists>w5 a_v a_n'.
       RestoreRevision_promote example_env
         (example_world\<lparr>files := (files example_world)(''s1/nodes/n1.REV.1000'' \<mapsto> 2000)\<rparr>)
         ''n1.REV.500'' example_node ''s1'' ''n1'' 1000 = Inr (50, w5)
     \<and> backend_All w5 ''s1/nodes/n1.REV.1000'' = Inr a_v
     \<and> a_v BlobIDAttr = Some ''b3'' \<and> a_v BlobsizeAttr = Some ''150''
     \<and> a_v MTimeAttr = Some ''1000''
     \<and> backend_All w5 ''s1/nodes/n1'' = Inr a_n'
     \<and> a_n' BlobIDAttr = Some ''b1'' \<and> a_n' BlobsizeAttr = Some ''50''
     \<and> a_n' MTimeAttr = Some ''2000''"
proof -
  obtain w5 where prom: "RestoreRevision_promote example_env
              (example_world\<lparr>files := (files example_world)(''s1/nodes/n1.REV.1000'' \<mapsto> 2000)\<rparr>)
              ''n1.REV.500'' example_node ''s1'' ''n1'' 1000 = Inr (50, w5)"
    using example_promote_500 by blast
  have dist: "InternalPath example_env ''s1'' ''n1'' \<noteq> newRevisionPathOf example_env ''s1'' ''n1'' 1000"
    "InternalPath example_env ''s1'' ''n1.REV.500'' \<noteq> newRevisionPathOf example_env ''s1'' ''n1'' 1000"
    "InternalPath example_env ''s1'' ''n1.REV.500'' \<noteq> InternalPath example_env ''s1'' ''n1''"
    by (simp_all add: example_paths)
  have frame: "\<forall>w k r p. SetCurrentRevision example_env w example_node k = r
                 \<longrightarrow> p \<noteq> InternalPath example_env ''s1'' ''n1'' \<longrightarrow> meta (snd r) p = meta w p"
    by (auto simp: example_env_fields)
  from RestoreRevision_promotes_target [OF example_prepare(1) prom dist frame]
  obtain a_n a_r a_v a_n' where
    n0: "backend_All example_world ''s1/nodes/n1'' = Inr a_n"
    and r0: "backend_All example_world ''s1/nodes/n1.REV.500'' = Inr a_r"
    and v5: "backend_All w5 ''s1/nodes/n1.REV.1000'' = Inr a_v"
    and n5: "backend_All w5 ''s1/nodes/n1'' = Inr a_n'"
    and p1: "\<forall>k v. (blobAttr k \<or> k = MTimeAttr) \<and> a_n k = Some v \<longrightarrow> a_v k = Some v"
    and p2: "\<forall>k v. blobAttr k \<and> a_r k = Some v \<longrightarrow> a_n' k = Some v"
    and p3: "\<forall>v. a_r MTimeAttr = Some v \<longrightarrow> a_n' MTimeAttr = Some (time_Format example_env (time_Now example_env))"
    unfolding example_paths by blast
  have an: "a_n BlobIDAttr = Some ''b3''" "a_n BlobsizeAttr = Some ''150''"
    "a_n MTimeAttr = Some ''1000''"
    using n0 by (auto simp: backend_All_def example_world_fields attr_names)
  have ar: "a_r BlobIDAttr = Some ''b1''" "a_r BlobsizeAttr = Some ''50''"
    "a_r MTimeAttr = Some ''500''"
    using r0 by (auto simp: backend_All_def example_world_fields attr_names)
  have ba: "blobAttr BlobIDAttr" "blobAttr BlobsizeAttr"
    by (simp_all add: blobAttr_def)
  have now: "time_Format example_env (time_Now example_env) = ''2000''"
    by (simp add: example_env_fields strconv_FormatInt_def format_nat.simps)
  from p1 an ba have "a_v BlobIDAttr = Some ''b3''" "a_v BlobsizeAttr = Some ''150''"
    "a_v MTimeAttr = Some ''1000''" by blast+
  moreover from p2 ar ba have "a_n' BlobIDAttr = Some ''b1''" "a_n' BlobsizeAttr = Some ''50''"
    by blast+
  moreover from p3 ar now have "a_n' MTimeAttr = Some ''2000''" by simp
  ultimately show ?thesis using prom v5 n5 by blast
qed

text \<open>
  Listing, download and restore, on an existing node and without the permission they
  need, answer \<^verbatim>\<open>PermissionDenied\<close> to a caller who may stat the node and \<^verbatim>\<open>NotFound\<close>
  to one who may not; the restore leaves the disk as it was.
\<close>

theorem missing_permission_answers:
  "(NodeFromResource e w ref = Inr n \<and> Exists n \<and> AssemblePermissions e w n = Inr rp
      \<and> \<not> ListFileVersions rp
    \<longrightarrow> ListRevisions e w ref =
          Inl (if Stat rp then PermissionDenied (FormatReference e ref)
               else NotFound (FormatReference e ref)))
   \<and> (strings_SplitN revisionKey RevisionIDDelimiter 2 = [nodeID, ts] \<and> ResourceId ref = Some rid
      \<and> ReadNode e w (SpaceId rid) nodeID = Inr m \<and> Exists m
      \<and> AssemblePermissions e w m = Inr rp' \<and> (\<not> ListFileVersions rp' \<or> \<not> InitiateFileDownload rp')
    \<longrightarrow> DownloadRevision e w ref revisionKey =
          Inl (if Stat rp' then PermissionDenied (FormatReference e ref)
               else NotFound (FormatReference e ref)))
   \<and> (strings_SplitN revisionKey RevisionIDDelimiter 2 = [nodeID, ts] \<and> ResourceId ref = Some rid
      \<and> ReadNode e w (SpaceId rid) nodeID = Inr m \<and> Exists m
      \<and> AssemblePermissions e w m = Inr rp' \<and> \<not> RestoreFileVersion rp'
    \<longrightarrow> RestoreRevision e w ref revisionKey =
          (Some (if Stat rp' then PermissionDenied (FormatReference e ref)
                 else NotFound (FormatReference e ref)), w))"
  by (auto simp: ListRevisions_def DownloadRevision_def RestoreRevision_def
      RestoreRevision_prepare_def Let_def)

text \<open>An instance: a caller with no permission at all gets \<^verbatim>\<open>NotFound\<close> from all
  three.\<close>

theorem missing_permission_answers_witness:
  "ListRevisions no_permission_env example_world example_ref = Inl (NotFound ''.'')
   \<and> DownloadRevision no_permission_env example_world example_ref ''n1.REV.500''
        = Inl (NotFound ''.'')
   \<and> RestoreRevision no_permission_env example_world example_ref ''n1.REV.500''
        = (Some (NotFound ''.''), example_world)"
proof -
  let ?rp = "\<lparr>ListFileVersions = False, InitiateFileDownload = False,
               RestoreFileVersion = False, Stat = False\<rparr>"
  have nfr: "NodeFromResource no_permission_env example_world example_ref = Inr example_node"
    using example_ReadNode(1)
    by (simp add: no_permission_env_def example_env_fields example_ref_def ReadNode_def
        node_Xattrs_def node_InternalPath_def)
  have rd: "ReadNode no_permission_env example_world
              (SpaceId \<lparr>StorageId = ''st'', SpaceId = ''s1'', OpaqueId = ''n1''\<rparr>) ''n1''
              = Inr example_node"
    using example_ReadNode(1)
    by (simp add: no_permission_env_def ReadNode_def node_Xattrs_def node_InternalPath_def)
  have ex: "Exists example_node" by (simp add: example_node_def)
  have perm: "AssemblePermissions no_permission_env example_world example_node = Inr ?rp"
    by (simp add: no_permission_env_def)
  have key: "strings_SplitN ''n1.REV.500'' RevisionIDDelimiter 2 = [''n1'', ''500'']"
    by (simp add: strings_SplitN_2 RevisionIDDelimiter_def)
  have ref: "ResourceId example_ref = Some \<lparr>StorageId = ''st'', SpaceId = ''s1'', OpaqueId = ''n1''\<rparr>"
    by (simp add: example_ref_def)
  have fmt: "FormatReference no_permission_env example_ref = ''.''"
    by (simp add: no_permission_env_def example_env_fields example_ref_def)
  have flags: "\<not> ListFileVersions ?rp" "\<not> RestoreFileVersion ?rp" "\<not> Stat ?rp"
    by simp_all
  from missing_permission_answers [of no_permission_env example_world example_ref example_node ?rp
      "''n1.REV.500''" "''n1''" "''500''" "\<lparr>StorageId = ''st'', SpaceId = ''s1'', OpaqueId = ''n1''\<rparr>"
      example_node ?rp]
    nfr rd ex perm key ref flags
  show ?thesis unfolding fmt by auto
qed

end
